theory Spec2Isabelle
  imports Main "HOL-Library.Monad_Syntax"
begin

section \<open>Tokens\<close>

text \<open>
  \<^verbatim>\<open>type TokenType int\<close> with the constants of the \<^verbatim>\<open>iota\<close> block, in their order.
  The constants \<^verbatim>\<open>INT\<close> and \<^verbatim>\<open>CONST\<close> are written \<open>INT_T\<close> and \<open>CONST_T\<close>.
\<close>

type_synonym TokenType = int

definition ILLEGAL :: TokenType where "ILLEGAL = 0"
definition EOF :: TokenType where "EOF = 1"
definition IDENT :: TokenType where "IDENT = 2"
definition INT_T :: TokenType where "INT_T = 3"
definition FLOAT :: TokenType where "FLOAT = 4"
definition STRING :: TokenType where "STRING = 5"
definition PHP_OPEN :: TokenType where "PHP_OPEN = 6"
definition PHP_CLOSE :: TokenType where "PHP_CLOSE = 7"
definition VARIABLE :: TokenType where "VARIABLE = 8"
definition ASSIGN :: TokenType where "ASSIGN = 9"
definition PLUS :: TokenType where "PLUS = 10"
definition MINUS :: TokenType where "MINUS = 11"
definition MULTIPLY :: TokenType where "MULTIPLY = 12"
definition DIVIDE :: TokenType where "DIVIDE = 13"
definition MODULO :: TokenType where "MODULO = 14"
definition CONCAT :: TokenType where "CONCAT = 15"
definition INCREMENT :: TokenType where "INCREMENT = 16"
definition DECREMENT :: TokenType where "DECREMENT = 17"
definition EQ :: TokenType where "EQ = 18"
definition NOT_EQ :: TokenType where "NOT_EQ = 19"
definition LT :: TokenType where "LT = 20"
definition GT :: TokenType where "GT = 21"
definition LTE :: TokenType where "LTE = 22"
definition GTE :: TokenType where "GTE = 23"
definition AND :: TokenType where "AND = 24"
definition OR :: TokenType where "OR = 25"
definition NOT :: TokenType where "NOT = 26"
definition COMMA :: TokenType where "COMMA = 27"
definition SEMICOLON :: TokenType where "SEMICOLON = 28"
definition COLON :: TokenType where "COLON = 29"
definition LPAREN :: TokenType where "LPAREN = 30"
definition RPAREN :: TokenType where "RPAREN = 31"
definition LBRACE :: TokenType where "LBRACE = 32"
definition RBRACE :: TokenType where "RBRACE = 33"
definition LBRACKET :: TokenType where "LBRACKET = 34"
definition RBRACKET :: TokenType where "RBRACKET = 35"
definition FUNCTION :: TokenType where "FUNCTION = 36"
definition CLASS :: TokenType where "CLASS = 37"
definition IF :: TokenType where "IF = 38"
definition ELSE :: TokenType where "ELSE = 39"
definition ELSEIF :: TokenType where "ELSEIF = 40"
definition WHILE :: TokenType where "WHILE = 41"
definition FOR :: TokenType where "FOR = 42"
definition FOREACH :: TokenType where "FOREACH = 43"
definition RETURN :: TokenType where "RETURN = 44"
definition ECHO :: TokenType where "ECHO = 45"
definition PRINT :: TokenType where "PRINT = 46"
definition VAR :: TokenType where "VAR = 47"
definition PUBLIC :: TokenType where "PUBLIC = 48"
definition PRIVATE :: TokenType where "PRIVATE = 49"
definition PROTECTED :: TokenType where "PROTECTED = 50"
definition STATIC :: TokenType where "STATIC = 51"
definition CONST_T :: TokenType where "CONST_T = 52"
definition NEW :: TokenType where "NEW = 53"
definition EXTENDS :: TokenType where "EXTENDS = 54"
definition IMPLEMENTS :: TokenType where "IMPLEMENTS = 55"
definition INTERFACE :: TokenType where "INTERFACE = 56"
definition NAMESPACE :: TokenType where "NAMESPACE = 57"
definition USE :: TokenType where "USE = 58"
definition REQUIRE :: TokenType where "REQUIRE = 59"
definition INCLUDE :: TokenType where "INCLUDE = 60"
definition TRUE :: TokenType where "TRUE = 61"
definition FALSE :: TokenType where "FALSE = 62"
definition NULL :: TokenType where "NULL = 63"
definition ARRAY :: TokenType where "ARRAY = 64"
definition BREAK :: TokenType where "BREAK = 65"
definition CONTINUE :: TokenType where "CONTINUE = 66"
definition DO :: TokenType where "DO = 67"
definition AS :: TokenType where "AS = 68"
definition ARROW :: TokenType where "ARROW = 69"
definition DOUBLE_ARROW :: TokenType where "DOUBLE_ARROW = 70"
definition OBJECT_ACCESS :: TokenType where "OBJECT_ACCESS = 71"
definition STATIC_ACCESS :: TokenType where "STATIC_ACCESS = 72"
definition NAMESPACE_SEPARATOR :: TokenType where "NAMESPACE_SEPARATOR = 73"
definition TRY :: TokenType where "TRY = 74"
definition CATCH :: TokenType where "CATCH = 75"
definition FINALLY :: TokenType where "FINALLY = 76"
definition THROW :: TokenType where "THROW = 77"
definition EXCEPTION :: TokenType where "EXCEPTION = 78"
definition CLOSURE :: TokenType where "CLOSURE = 79"
definition YIELD :: TokenType where "YIELD = 80"
definition YIELD_FROM :: TokenType where "YIELD_FROM = 81"
definition QUESTION :: TokenType where "QUESTION = 82"
definition QUESTION_QUESTION :: TokenType where "QUESTION_QUESTION = 83"
definition QUESTION_QUESTION_ASSIGN :: TokenType where "QUESTION_QUESTION_ASSIGN = 84"
definition SPACESHIP :: TokenType where "SPACESHIP = 85"
definition QUESTION_ARROW :: TokenType where "QUESTION_ARROW = 86"
definition TRAIT :: TokenType where "TRAIT = 87"
definition ABSTRACT :: TokenType where "ABSTRACT = 88"
definition FINAL :: TokenType where "FINAL = 89"
definition GLOBAL :: TokenType where "GLOBAL = 90"
definition LIST :: TokenType where "LIST = 91"
definition UNSET :: TokenType where "UNSET = 92"
definition ISSET :: TokenType where "ISSET = 93"
definition EMPTY :: TokenType where "EMPTY = 94"
definition CLONE :: TokenType where "CLONE = 95"
definition INSTANCEOF :: TokenType where "INSTANCEOF = 96"
definition MATCH :: TokenType where "MATCH = 97"
definition UNION_TYPE :: TokenType where "UNION_TYPE = 98"
definition INTERSECTION_TYPE :: TokenType where "INTERSECTION_TYPE = 99"
definition REFERENCE :: TokenType where "REFERENCE = 100"
definition VARIABLE_VAR :: TokenType where "VARIABLE_VAR = 101"
definition INCLUDE_ONCE :: TokenType where "INCLUDE_ONCE = 102"
definition REQUIRE_ONCE :: TokenType where "REQUIRE_ONCE = 103"
definition MAGIC_CONSTANT :: TokenType where "MAGIC_CONSTANT = 104"
definition ARROW_FUNCTION :: TokenType where "ARROW_FUNCTION = 105"

lemmas TokenType_defs =
  ILLEGAL_def EOF_def IDENT_def INT_T_def FLOAT_def STRING_def
  PHP_OPEN_def PHP_CLOSE_def VARIABLE_def ASSIGN_def PLUS_def MINUS_def
  MULTIPLY_def DIVIDE_def MODULO_def CONCAT_def INCREMENT_def DECREMENT_def
  EQ_def NOT_EQ_def LT_def GT_def LTE_def GTE_def
  AND_def OR_def NOT_def COMMA_def SEMICOLON_def COLON_def
  LPAREN_def RPAREN_def LBRACE_def RBRACE_def LBRACKET_def RBRACKET_def
  FUNCTION_def CLASS_def IF_def ELSE_def ELSEIF_def WHILE_def
  FOR_def FOREACH_def RETURN_def ECHO_def PRINT_def VAR_def
  PUBLIC_def PRIVATE_def PROTECTED_def STATIC_def CONST_T_def NEW_def
  EXTENDS_def IMPLEMENTS_def INTERFACE_def NAMESPACE_def USE_def REQUIRE_def
  INCLUDE_def TRUE_def FALSE_def NULL_def ARRAY_def BREAK_def
  CONTINUE_def DO_def AS_def ARROW_def DOUBLE_ARROW_def OBJECT_ACCESS_def
  STATIC_ACCESS_def NAMESPACE_SEPARATOR_def TRY_def CATCH_def FINALLY_def THROW_def
  EXCEPTION_def CLOSURE_def YIELD_def YIELD_FROM_def QUESTION_def QUESTION_QUESTION_def
  QUESTION_QUESTION_ASSIGN_def SPACESHIP_def QUESTION_ARROW_def TRAIT_def ABSTRACT_def FINAL_def
  GLOBAL_def LIST_def UNSET_def ISSET_def EMPTY_def CLONE_def
  INSTANCEOF_def MATCH_def UNION_TYPE_def INTERSECTION_TYPE_def REFERENCE_def VARIABLE_VAR_def
  INCLUDE_ONCE_def REQUIRE_ONCE_def MAGIC_CONSTANT_def ARROW_FUNCTION_def

text \<open>
  A token.  The struct's fifth field \<^verbatim>\<open>Position\<close> is never assigned by the lexer or the
  parser (it keeps Go's zero value in every token) and is left out.  Go's \<^verbatim>\<open>int\<close> line and
  column counters only count upwards from 0 or 1 and are modelled as naturals.
\<close>

record Token =
  Type :: TokenType
  Literal :: string
  Line :: nat
  Column :: nat

definition keywords_table :: "string \<rightharpoonup> TokenType" where
  "keywords_table = map_of
    [(''function'', FUNCTION), (''class'', CLASS), (''if'', IF), (''else'', ELSE),
     (''elseif'', ELSEIF), (''while'', WHILE), (''for'', FOR), (''foreach'', FOREACH),
     (''return'', RETURN), (''echo'', ECHO), (''print'', PRINT), (''var'', VAR),
     (''public'', PUBLIC), (''private'', PRIVATE), (''protected'', PROTECTED),
     (''static'', STATIC), (''const'', CONST_T), (''new'', NEW), (''extends'', EXTENDS),
     (''implements'', IMPLEMENTS), (''interface'', INTERFACE), (''namespace'', NAMESPACE),
     (''use'', USE), (''require'', REQUIRE), (''include'', INCLUDE), (''true'', TRUE),
     (''false'', FALSE), (''null'', NULL), (''array'', ARRAY), (''break'', BREAK),
     (''continue'', CONTINUE), (''do'', DO), (''as'', AS), (''try'', TRY),
     (''catch'', CATCH), (''finally'', FINALLY), (''throw'', THROW),
     (''exception'', EXCEPTION), (''closure'', CLOSURE), (''yield'', YIELD),
     (''trait'', TRAIT), (''abstract'', ABSTRACT), (''final'', FINAL), (''global'', GLOBAL),
     (''list'', LIST), (''unset'', UNSET), (''isset'', ISSET), (''empty'', EMPTY),
     (''clone'', CLONE), (''instanceof'', INSTANCEOF), (''match'', MATCH),
     (''include_once'', INCLUDE_ONCE), (''require_once'', REQUIRE_ONCE),
     (''fn'', ARROW_FUNCTION)]"

definition LookupIdent :: "string \<Rightarrow> TokenType" where
  "LookupIdent ident = (case keywords_table ident of Some tok \<Rightarrow> tok | None \<Rightarrow> IDENT)"

section \<open>Lexer\<close>

text \<open>
  The lexer state.  The input is a Go string, that is a sequence of bytes; \<^verbatim>\<open>ch\<close> is the
  byte under the cursor, or the byte 0 past the end of the input.
\<close>

record Lexer =
  input :: string
  position :: nat
  readPosition :: nat
  ch :: char
  line :: nat
  column :: nat

definition NUL :: char where "NUL = CHR 0x00"
definition newline :: char where "newline = CHR 0x0A"
definition backslash :: char where "backslash = CHR 0x5C"
definition dquote :: char where "dquote = CHR 0x22"
definition squote :: char where "squote = CHR 0x27"

definition readChar :: "Lexer \<Rightarrow> Lexer" where
  "readChar l =
     (let c = (if readPosition l \<ge> length (input l) then NUL else input l ! readPosition l)
      in l\<lparr> ch := c,
            position := readPosition l,
            readPosition := readPosition l + 1,
            line := (if c = newline then line l + 1 else line l),
            column := (if c = newline then 0 else column l + 1) \<rparr>)"

definition New :: "string \<Rightarrow> Lexer" where
  "New inp = readChar \<lparr> input = inp, position = 0, readPosition = 0, ch = NUL,
                         line = 1, column = 0 \<rparr>"

definition peekChar :: "Lexer \<Rightarrow> char" where
  "peekChar l = (if readPosition l \<ge> length (input l) then NUL else input l ! readPosition l)"

definition peekCharAt :: "Lexer \<Rightarrow> nat \<Rightarrow> char" where
  "peekCharAt l offset =
     (let pos = readPosition l + offset
      in if pos \<ge> length (input l) then NUL else input l ! pos)"

definition isLetter :: "char \<Rightarrow> bool" where
  "isLetter c \<longleftrightarrow>
     (let n = (of_char c :: nat)
      in 97 \<le> n \<and> n \<le> 122 \<or> 65 \<le> n \<and> n \<le> 90 \<or> c = CHR ''_'' \<or> n > 127)"

definition isDigit :: "char \<Rightarrow> bool" where
  "isDigit c \<longleftrightarrow> (let n = (of_char c :: nat) in 48 \<le> n \<and> n \<le> 57)"

definition isSpace :: "char \<Rightarrow> bool" where
  "isSpace c \<longleftrightarrow> c = CHR '' '' \<or> c = CHR 0x09 \<or> c = newline \<or> c = CHR 0x0D"

definition newToken :: "TokenType \<Rightarrow> char \<Rightarrow> nat \<Rightarrow> nat \<Rightarrow> Token" where
  "newToken tokenType c ln col = \<lparr> Type = tokenType, Literal = [c], Line = ln, Column = col \<rparr>"

text \<open>
  Go's slice expression \<^verbatim>\<open>s[lo:hi]\<close> panics unless \<open>lo \<le> hi \<le> len(s)\<close>; the panic is the
  value \<open>None\<close>.
\<close>

definition go_slice :: "string \<Rightarrow> nat \<Rightarrow> nat \<Rightarrow> string option" where
  "go_slice s lo hi = (if lo \<le> hi \<and> hi \<le> length s then Some (take (hi - lo) (drop lo s)) else None)"

text \<open>
  Every scanning loop of the lexer goes on only while the current byte is not 0, and
  \<open>readChar\<close> yields 0 once the read position has left the input: the number of bytes
  still to read, plus one while the current byte is not 0, decreases.
\<close>

definition remaining :: "Lexer \<Rightarrow> nat" where
  "remaining l = (length (input l) - readPosition l) + (if ch l \<noteq> NUL then 1 else 0)"

lemma remaining_readChar_le: "remaining (readChar l) \<le> remaining l"
  by (auto simp: remaining_def readChar_def Let_def)

lemma remaining_readChar_less: "ch l \<noteq> NUL \<Longrightarrow> remaining (readChar l) < remaining l"
  by (auto simp: remaining_def readChar_def Let_def)

lemma isSpace_not_NUL: "isSpace c \<Longrightarrow> c \<noteq> NUL"
  by (auto simp: isSpace_def NUL_def newline_def)

lemma isLetter_not_NUL: "isLetter c \<Longrightarrow> c \<noteq> NUL"
  by (auto simp: isLetter_def NUL_def Let_def)

lemma isDigit_not_NUL: "isDigit c \<Longrightarrow> c \<noteq> NUL"
  by (auto simp: isDigit_def NUL_def Let_def)

function skipWhitespace :: "Lexer \<Rightarrow> Lexer" where
  "skipWhitespace l = (if isSpace (ch l) then skipWhitespace (readChar l) else l)"
  by pat_completeness auto
termination
  by (relation "measure remaining") (auto simp: remaining_readChar_less isSpace_not_NUL)

function readIdentifier_loop :: "Lexer \<Rightarrow> Lexer" where
  "readIdentifier_loop l =
     (if isLetter (ch l) \<or> isDigit (ch l) then readIdentifier_loop (readChar l) else l)"
  by pat_completeness auto
termination
  by (relation "measure remaining")
     (auto simp: remaining_readChar_less isLetter_not_NUL isDigit_not_NUL)

definition readIdentifier :: "Lexer \<Rightarrow> (string \<times> Lexer) option" where
  "readIdentifier l =
     (let pos = position l; l1 = readIdentifier_loop l
      in map_option (\<lambda>s. (s, l1)) (go_slice (input l1) pos (position l1)))"

function readDigits :: "Lexer \<Rightarrow> Lexer" where
  "readDigits l = (if isDigit (ch l) then readDigits (readChar l) else l)"
  by pat_completeness auto
termination
  by (relation "measure remaining") (auto simp: remaining_readChar_less isDigit_not_NUL)

definition readNumber :: "Lexer \<Rightarrow> ((TokenType \<times> string) \<times> Lexer) option" where
  "readNumber l =
     (let pos = position l;
          l1 = readDigits l;
          (tokenType, l2) =
             (if ch l1 = CHR ''.'' \<and> isDigit (peekChar l1)
              then (FLOAT, readDigits (readChar l1)) else (INT_T, l1))
      in map_option (\<lambda>s. ((tokenType, s), l2)) (go_slice (input l2) pos (position l2)))"

function readString_loop :: "char \<Rightarrow> Lexer \<Rightarrow> Lexer" where
  "readString_loop delimiter l =
     (let l1 = readChar l
      in if ch l1 = delimiter \<or> ch l1 = NUL then l1
         else readString_loop delimiter (if ch l1 = backslash then readChar l1 else l1))"
  by pat_completeness auto
termination
proof (relation "measure (\<lambda>(d, l). length (input l) - readPosition l)", goal_cases)
  case 1
  show ?case by simp
next
  case (2 delimiter l x)
  then show ?case
    by (auto simp: readChar_def Let_def split: if_splits)
qed

definition readString :: "char \<Rightarrow> Lexer \<Rightarrow> (string \<times> Lexer) option" where
  "readString delimiter l =
     (let pos = position l + 1; l1 = readString_loop delimiter l
      in map_option (\<lambda>s. (s, l1)) (go_slice (input l1) pos (position l1)))"

function skipLine :: "Lexer \<Rightarrow> Lexer" where
  "skipLine l = (if ch l \<noteq> newline \<and> ch l \<noteq> NUL then skipLine (readChar l) else l)"
  by pat_completeness auto
termination
  by (relation "measure remaining") (auto simp: remaining_readChar_less)

function skipBlock :: "Lexer \<Rightarrow> Lexer" where
  "skipBlock l =
     (if ch l = NUL then l
      else if ch l = CHR ''*'' \<and> peekChar l = CHR ''/'' then readChar (readChar l)
      else skipBlock (readChar l))"
  by pat_completeness auto
termination
  by (relation "measure remaining") (auto simp: remaining_readChar_less)

definition skipComment :: "Lexer \<Rightarrow> Lexer" where
  "skipComment l =
     (if ch l = CHR ''/'' \<and> peekChar l = CHR ''/'' then skipLine l
      else if ch l = CHR ''/'' \<and> peekChar l = CHR ''*'' then skipBlock (readChar (readChar l))
      else if ch l = CHR ''#'' then skipLine l
      else l)"

declare skipWhitespace.simps [simp del] readIdentifier_loop.simps [simp del]
  readDigits.simps [simp del] readString_loop.simps [simp del]
  skipLine.simps [simp del] skipBlock.simps [simp del]

lemma remaining_skipWhitespace_le: "remaining (skipWhitespace l) \<le> remaining l"
proof (induction l rule: skipWhitespace.induct)
  case (1 l)
  show ?case
  proof (cases "isSpace (ch l)")
    case True
    then have "remaining (skipWhitespace (readChar l)) \<le> remaining (readChar l)"
      using "1.IH" by simp
    also have "\<dots> \<le> remaining l" by (rule remaining_readChar_le)
    finally show ?thesis using True by (subst skipWhitespace.simps) simp
  next
    case False
    then show ?thesis by (subst skipWhitespace.simps) simp
  qed
qed

lemma remaining_skipLine_le: "remaining (skipLine l) \<le> remaining l"
proof (induction l rule: skipLine.induct)
  case (1 l)
  show ?case
  proof (cases "ch l \<noteq> newline \<and> ch l \<noteq> NUL")
    case True
    then have "remaining (skipLine (readChar l)) \<le> remaining (readChar l)"
      using "1.IH" by simp
    also have "\<dots> \<le> remaining l" by (rule remaining_readChar_le)
    finally show ?thesis using True by (subst skipLine.simps) simp
  next
    case False
    then show ?thesis by (subst skipLine.simps) auto
  qed
qed

lemma remaining_skipComment_less:
  assumes "ch l = CHR ''/''" and "peekChar l = CHR ''/''"
  shows "remaining (skipComment l) < remaining l"
proof -
  have nz: "ch l \<noteq> NUL" and nn: "ch l \<noteq> newline"
    using assms(1) by (simp_all add: NUL_def newline_def)
  have "skipComment l = skipLine (readChar l)"
    using assms nz nn by (simp add: skipComment_def skipLine.simps [of l])
  also have "remaining \<dots> \<le> remaining (readChar l)" by (rule remaining_skipLine_le)
  also have "\<dots> < remaining l" using nz by (rule remaining_readChar_less)
  finally show ?thesis .
qed

text \<open>
  The two-byte operators: keep the current byte, advance once, and build the token from
  both bytes with the line and column of the cursor after the advance.
\<close>

definition twoCharToken :: "TokenType \<Rightarrow> Lexer \<Rightarrow> Token \<times> Lexer" where
  "twoCharToken tokenType l =
     (let c = ch l; l1 = readChar l
      in (\<lparr> Type = tokenType, Literal = [c, ch l1], Line = line l1, Column = column l1 \<rparr>, l1))"

text \<open>The statements \<^verbatim>\<open>l.readChar(); return tok\<close> that end \<^verbatim>\<open>NextToken\<close>.\<close>

definition advance :: "Token \<times> Lexer \<Rightarrow> (Token \<times> Lexer) option" where
  "advance r = Some (fst r, readChar (snd r))"

function NextToken :: "Lexer \<Rightarrow> (Token \<times> Lexer) option" where
  "NextToken l0 =
    (let l = skipWhitespace l0; c = ch l in
     if c = CHR ''='' then
       (if peekChar l = CHR ''='' then advance (twoCharToken EQ l)
        else if peekChar l = CHR ''>'' then advance (twoCharToken DOUBLE_ARROW l)
        else advance (newToken ASSIGN c (line l) (column l), l))
     else if c = CHR ''+'' then
       (if peekChar l = CHR ''+'' then advance (twoCharToken INCREMENT l)
        else advance (newToken PLUS c (line l) (column l), l))
     else if c = CHR ''-'' then
       (if peekChar l = CHR ''>'' then advance (twoCharToken OBJECT_ACCESS l)
        else advance (newToken MINUS c (line l) (column l), l))
     else if c = CHR ''*'' then advance (newToken MULTIPLY c (line l) (column l), l)
     else if c = CHR ''/'' then
       (if peekChar l = CHR ''/'' then NextToken (skipComment l)
        else advance (newToken DIVIDE c (line l) (column l), l))
     else if c = CHR ''%'' then advance (newToken MODULO c (line l) (column l), l)
     else if c = CHR ''.'' then advance (newToken CONCAT c (line l) (column l), l)
     else if c = CHR ''!'' then
       (if peekChar l = CHR ''='' then advance (twoCharToken NOT_EQ l)
        else advance (newToken NOT c (line l) (column l), l))
     else if c = CHR ''<'' then
       (if peekChar l = CHR ''='' \<and> peekCharAt l 1 = CHR ''>'' then
          (let l2 = readChar (readChar l)
           in advance (\<lparr> Type = SPACESHIP, Literal = c # ''=>'',
                          Line = line l2, Column = column l2 \<rparr>, l2))
        else if peekChar l = CHR ''='' then advance (twoCharToken LTE l)
        else if peekChar l = CHR ''?'' then
          (let l1 = readChar l in
           if peekChar l1 = CHR ''p'' then
             (let l2 = readChar l1 in
              if peekChar l2 = CHR ''h'' then
                (let l3 = readChar l2 in
                 if peekChar l3 = CHR ''p'' then
                   (let l4 = readChar l3
                    in advance (\<lparr> Type = PHP_OPEN, Literal = ''<?php'',
                                   Line = line l4, Column = column l4 \<rparr>, l4))
                 else advance (newToken LT c (line l3) (column l3), l3))
              else advance (newToken LT c (line l2) (column l2), l2))
           else advance (newToken LT c (line l1) (column l1), l1))
        else advance (newToken LT c (line l) (column l), l))
     else if c = CHR ''>'' then
       (if peekChar l = CHR ''='' then advance (twoCharToken GTE l)
        else advance (newToken GT c (line l) (column l), l))
     else if c = CHR ''&'' then
       (if peekChar l = CHR ''&'' then advance (twoCharToken AND l)
        else advance (newToken ILLEGAL c (line l) (column l), l))
     else if c = CHR ''|'' then
       (if peekChar l = CHR ''|'' then advance (twoCharToken OR l)
        else advance (newToken ILLEGAL c (line l) (column l), l))
     else if c = CHR ''?'' then
       (if peekChar l = CHR ''>'' then advance (twoCharToken PHP_CLOSE l)
        else if peekChar l = CHR ''?'' then
          (let l1 = readChar l in
           if peekChar l1 = CHR ''='' then
             (let l2 = readChar l1
              in advance (\<lparr> Type = QUESTION_QUESTION_ASSIGN, Literal = c # ''?='',
                             Line = line l2, Column = column l2 \<rparr>, l2))
           else advance (\<lparr> Type = QUESTION_QUESTION, Literal = [c, ch l1],
                            Line = line l1, Column = column l1 \<rparr>, l1))
        else if peekChar l = CHR ''-'' \<and> peekCharAt l 1 = CHR ''>'' then
          (let l2 = readChar (readChar l)
           in advance (\<lparr> Type = QUESTION_ARROW, Literal = c # ''->'',
                          Line = line l2, Column = column l2 \<rparr>, l2))
        else advance (newToken QUESTION c (line l) (column l), l))
     else if c = CHR '','' then advance (newToken COMMA c (line l) (column l), l)
     else if c = CHR '';'' then advance (newToken SEMICOLON c (line l) (column l), l)
     else if c = CHR ''('' then advance (newToken LPAREN c (line l) (column l), l)
     else if c = CHR '')'' then advance (newToken RPAREN c (line l) (column l), l)
     else if c = CHR ''{'' then advance (newToken LBRACE c (line l) (column l), l)
     else if c = CHR ''}'' then advance (newToken RBRACE c (line l) (column l), l)
     else if c = CHR ''['' then advance (newToken LBRACKET c (line l) (column l), l)
     else if c = CHR '']'' then advance (newToken RBRACKET c (line l) (column l), l)
     else if c = dquote then
       (case readString dquote l of None \<Rightarrow> None
        | Some (s, l1) \<Rightarrow>
            advance (\<lparr> Type = STRING, Literal = s, Line = line l1, Column = column l1 \<rparr>, l1))
     else if c = squote then
       (case readString squote l of None \<Rightarrow> None
        | Some (s, l1) \<Rightarrow>
            advance (\<lparr> Type = STRING, Literal = s, Line = line l1, Column = column l1 \<rparr>, l1))
     else if c = CHR ''$'' then
       (case readIdentifier (readChar l) of None \<Rightarrow> None
        | Some (s, l1) \<Rightarrow>
            Some (\<lparr> Type = VARIABLE, Literal = CHR ''$'' # s,
                    Line = line l1, Column = column l1 \<rparr>, l1))
     else if c = CHR '':'' then
       (if peekChar l = CHR '':'' then advance (twoCharToken STATIC_ACCESS l)
        else advance (newToken COLON c (line l) (column l), l))
     else if c = backslash then
       advance (newToken NAMESPACE_SEPARATOR c (line l) (column l), l)
     else if c = NUL then
       advance (\<lparr> Type = EOF, Literal = [], Line = line l, Column = column l \<rparr>, l)
     else if isLetter c then
       (case readIdentifier l of None \<Rightarrow> None
        | Some (s, l1) \<Rightarrow>
            Some (\<lparr> Type = LookupIdent s, Literal = s, Line = line l, Column = column l \<rparr>, l1))
     else if isDigit c then
       (case readNumber l of None \<Rightarrow> None
        | Some ((tokenType, s), l1) \<Rightarrow>
            Some (\<lparr> Type = tokenType, Literal = s, Line = line l1, Column = column l1 \<rparr>, l1))
     else advance (newToken ILLEGAL c (line l) (column l), l))"
  by pat_completeness auto
termination
proof (relation "measure remaining", goal_cases)
  case 1
  show ?case by simp
next
  case (2 l0 l c)
  then have "remaining (skipComment l) < remaining l"
    by (simp add: remaining_skipComment_less)
  also have "\<dots> \<le> remaining l0"
    using 2 by (simp add: remaining_skipWhitespace_le)
  finally show ?case by simp
qed

declare NextToken.simps [simp del]

section \<open>Printing token kinds\<close>

fun show_nat :: "nat \<Rightarrow> string" where
  "show_nat n =
     (if n < 10 then [char_of (48 + n)] else show_nat (n div 10) @ [char_of (48 + n mod 10)])"

declare show_nat.simps [simp del]

definition show_int :: "int \<Rightarrow> string" where
  "show_int i = (if i < 0 then CHR ''-'' # show_nat (nat (- i)) else show_nat (nat i))"

text \<open>
  \<^verbatim>\<open>func (t TokenType) String()\<close>: the kinds of the switch, in its order; every other
  kind (among them the keywords from \<^verbatim>\<open>FUNCTION\<close> to \<^verbatim>\<open>ARRAY\<close>) prints as
  \<^verbatim>\<open>KEYWORD(n)\<close>.
\<close>

definition TokenType_names :: "(TokenType \<times> string) list" where
  "TokenType_names =
    [(ILLEGAL, ''ILLEGAL''), (EOF, ''EOF''), (IDENT, ''IDENT''), (INT_T, ''INT''),
     (FLOAT, ''FLOAT''), (STRING, ''STRING''), (PHP_OPEN, ''PHP_OPEN''),
     (PHP_CLOSE, ''PHP_CLOSE''), (VARIABLE, ''VARIABLE''), (ASSIGN, ''ASSIGN''),
     (PLUS, ''PLUS''), (MINUS, ''MINUS''), (MULTIPLY, ''MULTIPLY''), (DIVIDE, ''DIVIDE''),
     (MODULO, ''MODULO''), (CONCAT, ''CONCAT''), (INCREMENT, ''INCREMENT''),
     (DECREMENT, ''DECREMENT''), (EQ, ''EQ''), (NOT_EQ, ''NOT_EQ''), (LT, ''LT''),
     (GT, ''GT''), (LTE, ''LTE''), (GTE, ''GTE''), (AND, ''AND''), (OR, ''OR''),
     (NOT, ''NOT''), (COMMA, ''COMMA''), (SEMICOLON, ''SEMICOLON''), (COLON, ''COLON''),
     (LPAREN, ''LPAREN''), (RPAREN, ''RPAREN''), (LBRACE, ''LBRACE''), (RBRACE, ''RBRACE''),
     (LBRACKET, ''LBRACKET''), (RBRACKET, ''RBRACKET''), (BREAK, ''BREAK''),
     (CONTINUE, ''CONTINUE''), (DO, ''DO''), (AS, ''AS''), (ARROW, ''ARROW''),
     (DOUBLE_ARROW, ''DOUBLE_ARROW''), (OBJECT_ACCESS, ''OBJECT_ACCESS''),
     (STATIC_ACCESS, ''STATIC_ACCESS''), (NAMESPACE_SEPARATOR, ''NAMESPACE_SEPARATOR''),
     (TRY, ''TRY''), (CATCH, ''CATCH''), (FINALLY, ''FINALLY''), (THROW, ''THROW''),
     (EXCEPTION, ''EXCEPTION''), (CLOSURE, ''CLOSURE''), (YIELD, ''YIELD''),
     (YIELD_FROM, ''YIELD_FROM''), (QUESTION, ''QUESTION''),
     (QUESTION_QUESTION, ''QUESTION_QUESTION''),
     (QUESTION_QUESTION_ASSIGN, ''QUESTION_QUESTION_ASSIGN''), (SPACESHIP, ''SPACESHIP''),
     (QUESTION_ARROW, ''QUESTION_ARROW''), (TRAIT, ''TRAIT''), (ABSTRACT, ''ABSTRACT''),
     (FINAL, ''FINAL''), (GLOBAL, ''GLOBAL''), (LIST, ''LIST''), (UNSET, ''UNSET''),
     (ISSET, ''ISSET''), (EMPTY, ''EMPTY''), (CLONE, ''CLONE''),
     (INSTANCEOF, ''INSTANCEOF''), (MATCH, ''MATCH''), (UNION_TYPE, ''UNION_TYPE''),
     (INTERSECTION_TYPE, ''INTERSECTION_TYPE''), (REFERENCE, ''REFERENCE''),
     (VARIABLE_VAR, ''VARIABLE_VAR''), (INCLUDE_ONCE, ''INCLUDE_ONCE''),
     (REQUIRE_ONCE, ''REQUIRE_ONCE''), (MAGIC_CONSTANT, ''MAGIC_CONSTANT''),
     (ARROW_FUNCTION, ''ARROW_FUNCTION'')]"

definition TokenType_String :: "TokenType \<Rightarrow> string" where
  "TokenType_String t =
     (case map_of TokenType_names t of
        Some s \<Rightarrow> s
      | None \<Rightarrow> ''KEYWORD('' @ show_int t @ '')'')"

section \<open>The standard library calls of the parser\<close>

text \<open>
  \<^verbatim>\<open>strconv.ParseInt(s, 0, 64)\<close> of Go's standard library, after its source
  (\<^verbatim>\<open>strconv/atoi.go\<close>); the parser only tests whether the call fails, so every error is
  \<open>None\<close>.  With base 0 the base is read from the prefix: \<^verbatim>\<open>0b\<close>, \<^verbatim>\<open>0o\<close>, \<^verbatim>\<open>0x\<close> (with
  at least one more byte) for 2, 8, 16, any other leading \<^verbatim>\<open>0\<close> for 8, else 10; underscores
  may separate digits.  A byte that is no digit of the base is a syntax error, a value
  outside \<open>[-2^63, 2^63 - 1]\<close> a range error.  Go detects the overflow of its
  \<^verbatim>\<open>uint64\<close> accumulator before it wraps; the model accumulates an unbounded natural
  and compares it with the bounds at the end, which fails on the same strings.
\<close>

definition lower :: "char \<Rightarrow> char" where
  "lower c = char_of (or (of_char c :: nat) 32)"

definition digit_value :: "char \<Rightarrow> nat option" where
  "digit_value c =
     (let n = (of_char c :: nat); m = (of_char (lower c) :: nat)
      in if 48 \<le> n \<and> n \<le> 57 then Some (n - 48)
         else if 97 \<le> m \<and> m \<le> 122 then Some (m - 97 + 10)
         else None)"

fun ParseUint_loop :: "nat \<Rightarrow> string \<Rightarrow> nat \<Rightarrow> nat option" where
  "ParseUint_loop base [] n = Some n"
| "ParseUint_loop base (c # cs) n =
     (if c = CHR ''_'' then ParseUint_loop base cs n
      else (case digit_value c of
              None \<Rightarrow> None
            | Some d \<Rightarrow> if d \<ge> base then None else ParseUint_loop base cs (n * base + d)))"

text \<open>
  \<^verbatim>\<open>underscoreOK\<close>: underscores must separate digits, where the base prefix counts as a
  digit.  The second argument is the state \<^verbatim>\<open>saw\<close>: the last byte seen was a digit or base
  prefix (\<open>CHR ''0''\<close>), an underscore (\<open>CHR ''_''\<close>), something else (\<open>CHR ''!''\<close>), or
  nothing yet (\<open>CHR ''^''\<close>).
\<close>

fun underscoreOK_loop :: "bool \<Rightarrow> char \<Rightarrow> string \<Rightarrow> bool" where
  "underscoreOK_loop hex saw [] = (saw \<noteq> CHR ''_'')"
| "underscoreOK_loop hex saw (c # cs) =
     (let n = (of_char c :: nat); m = (of_char (lower c) :: nat)
      in if 48 \<le> n \<and> n \<le> 57 \<or> hex \<and> 97 \<le> m \<and> m \<le> 102
         then underscoreOK_loop hex (CHR ''0'') cs
         else if c = CHR ''_''
         then (if saw \<noteq> CHR ''0'' then False else underscoreOK_loop hex (CHR ''_'') cs)
         else if saw = CHR ''_'' then False
         else underscoreOK_loop hex (CHR ''!'') cs)"

definition underscoreOK :: "string \<Rightarrow> bool" where
  "underscoreOK s0 =
     (let s = (if length s0 \<ge> 1 \<and> (hd s0 = CHR ''-'' \<or> hd s0 = CHR ''+'') then tl s0 else s0)
      in if length s \<ge> 2 \<and> s ! 0 = CHR ''0''
            \<and> (lower (s ! 1) = CHR ''b'' \<or> lower (s ! 1) = CHR ''o'' \<or> lower (s ! 1) = CHR ''x'')
         then underscoreOK_loop (lower (s ! 1) = CHR ''x'') (CHR ''0'') (drop 2 s)
         else underscoreOK_loop False (CHR ''^'') s)"

definition ParseUint :: "string \<Rightarrow> nat option" where
  "ParseUint s0 =
     (if s0 = [] then None
      else
        let (base, s) =
              (if s0 ! 0 = CHR ''0'' then
                 (if length s0 \<ge> 3 \<and> lower (s0 ! 1) = CHR ''b'' then (2, drop 2 s0)
                  else if length s0 \<ge> 3 \<and> lower (s0 ! 1) = CHR ''o'' then (8, drop 2 s0)
                  else if length s0 \<ge> 3 \<and> lower (s0 ! 1) = CHR ''x'' then (16, drop 2 s0)
                  else (8, drop 1 s0))
               else (10, s0))
        in case ParseUint_loop base s 0 of
             None \<Rightarrow> None
           | Some n \<Rightarrow>
               if CHR ''_'' \<in> set s \<and> \<not> underscoreOK s0 then None
               else if n \<ge> 2 ^ 64 then None
               else Some n)"

definition ParseInt :: "string \<Rightarrow> int option" where
  "ParseInt s0 =
     (if s0 = [] then None
      else
        let neg = (s0 ! 0 = CHR ''-'');
            s = (if s0 ! 0 = CHR ''+'' \<or> s0 ! 0 = CHR ''-'' then drop 1 s0 else s0)
        in case ParseUint s of
             None \<Rightarrow> None
           | Some un \<Rightarrow>
               if \<not> neg \<and> un \<ge> 2 ^ 63 then None
               else if neg \<and> un > 2 ^ 63 then None
               else Some (if neg then - int un else int un))"

text \<open>
  \<^verbatim>\<open>strconv.ParseFloat(s, 64)\<close> on the literals of \<^verbatim>\<open>FLOAT\<close> tokens.  \<^verbatim>\<open>readNumber\<close> gives
  such a token a digit run, a point and a digit run, which is always well formed; the
  call then fails exactly when the value rounds to infinity, that is from
  \<open>2^1024 - 2^970\<close> on (the midpoint between the largest \<^verbatim>\<open>float64\<close> and \<open>2^1024\<close>,
  which rounds to even).  The \<^verbatim>\<open>float64\<close> itself is not modelled.  On a string of another
  shape, which no \<^verbatim>\<open>FLOAT\<close> token carries, the model reports failure.
\<close>

definition decimal_value :: "string \<Rightarrow> nat" where
  "decimal_value ds = foldl (\<lambda>n c. n * 10 + (of_char c - 48)) 0 ds"

definition ParseFloat_ok :: "string \<Rightarrow> bool" where
  "ParseFloat_ok s =
     (let ip = takeWhile isDigit s; rest = dropWhile isDigit s
      in ip \<noteq> [] \<and> rest \<noteq> [] \<and> hd rest = CHR ''.'' \<and> tl rest \<noteq> [] \<and> list_all isDigit (tl rest)
         \<and> decimal_value (ip @ tl rest) < (2 ^ 1024 - 2 ^ 970) * 10 ^ length (tl rest))"

text \<open>
  \<^verbatim>\<open>%q\<close> of \<^verbatim>\<open>fmt.Sprintf\<close> on a string of printable ASCII bytes other than the double
  quote and the backslash (such as the digit runs of number tokens): the string between
  double quotes.
\<close>

definition go_quote :: "string \<Rightarrow> string" where
  "go_quote s = [dquote] @ s @ [dquote]"

text \<open>\<^verbatim>\<open>strings.HasPrefix(s, prefix)\<close>.\<close>

definition HasPrefix :: "string \<Rightarrow> string \<Rightarrow> bool" where
  "HasPrefix s pre \<longleftrightarrow> take (length pre) s = pre"

text \<open>\<^verbatim>\<open>strings.Split(s, sep)\<close> for a separator of one byte.\<close>

fun split_on :: "char \<Rightarrow> string \<Rightarrow> string list" where
  "split_on sep [] = [[]]"
| "split_on sep (c # cs) =
     (if c = sep then [] # split_on sep cs
      else (case split_on sep cs of
              [] \<Rightarrow> [[c]]
            | part # parts \<Rightarrow> (c # part) # parts))"

section \<open>Syntax trees\<close>

text \<open>
  One constructor for each node struct, with the struct's fields in their order.  A field
  of interface type \<^verbatim>\<open>Expression\<close> may hold \<^verbatim>\<open>nil\<close> and is an \<open>option\<close>; so is a pointer
  field that the parser leaves \<^verbatim>\<open>nil\<close> in a node it returns (\<^verbatim>\<open>SuperClass\<close>, \<^verbatim>\<open>Alias\<close>,
  \<^verbatim>\<open>Alternative\<close>, \<^verbatim>\<open>Finally\<close>, \<^verbatim>\<open>Key\<close>, \<^verbatim>\<open>ExceptionType\<close>).  A slice is a list; a \<^verbatim>\<open>nil\<close>
  slice and an empty slice (equal in length, iteration and \<^verbatim>\<open>append\<close>) are both \<open>[]\<close>.
  \<^verbatim>\<open>FloatLiteral\<close> keeps its token only (see \<open>ParseFloat_ok\<close>).

  \<^verbatim>\<open>parseStatement\<close> returns the pointer results of the statement parsers as values of
  the interface type \<^verbatim>\<open>Statement\<close>.  In Go a \<^verbatim>\<open>nil\<close> pointer of type \<^verbatim>\<open>*IfStatement\<close> converted
  to an interface is not the \<^verbatim>\<open>nil\<close> interface: it compares unequal to \<^verbatim>\<open>nil\<close>.
  \<open>NilPointer\<close> is such a statement, with the name of the pointer's struct type.
\<close>

datatype Identifier = Identifier Token string
datatype Variable = Variable Token string
datatype TraitUse = TraitUse Token "Identifier list"
datatype InterfaceMethod = InterfaceMethod Token string Identifier "Variable list"

datatype Expression =
    IdentifierExpr Identifier
  | VariableExpr Variable
  | IntegerLiteral Token int
  | FloatLiteral Token
  | StringLiteral Token string
  | BooleanLiteral Token bool
  | InterpolatedString Token "Expression list"
  | PrefixExpression Token string "Expression option"
  | InfixExpression Token "Expression option" string "Expression option"
  | PostfixExpression Token "Expression option" string
  | AssignmentExpression Token Variable "Expression option"
  | TernaryExpression Token "Expression option" "Expression option" "Expression option"
  | CallExpression Token "Expression option" "Expression option list"
  | IndexExpression Token "Expression option" "Expression option"
  | ArrayLiteral Token "Expression option list"
  | AssociativeArrayLiteral Token "(Expression option \<times> Expression option) list"
  | NewExpression Token Identifier "Expression option list"
  | ObjectAccessExpression Token "Expression option" "Expression option"
  | StaticAccessExpression Token "Expression option" "Expression option"
  | AnonymousFunction Token "Variable list" "Variable list" BlockStatement
  | YieldExpression Token "Expression option" "Expression option"
and Statement =
    ExpressionStatement Token "Expression option"
  | FunctionDeclaration Token Identifier "Variable list" BlockStatement
  | ClassDeclaration Token Identifier "Identifier option" "Identifier list" "TraitUse list"
      "PropertyDeclaration list" "MethodDeclaration list" "ConstantDeclaration list"
  | InterfaceDeclaration Token Identifier "InterfaceMethod list"
  | TraitDeclaration Token Identifier "PropertyDeclaration list" "MethodDeclaration list"
  | ConstantStatement ConstantDeclaration
  | NamespaceDeclaration Token Identifier
  | UseStatement Token Identifier "Identifier option"
  | TryStatement Token BlockStatement "CatchClause list" "BlockStatement option"
  | ThrowStatement Token "Expression option"
  | ReturnStatement Token "Expression option"
  | IfStatement Token "Expression option" BlockStatement "BlockStatement option"
  | EchoStatement Token "Expression option list"
  | ForStatement Token "Expression option" "Expression option" "Expression option"
      BlockStatement
  | WhileStatement Token "Expression option" BlockStatement
  | ForeachStatement Token "Expression option" "Variable option" Variable BlockStatement
  | BreakStatement Token "Expression option"
  | ContinueStatement Token "Expression option"
  | NilPointer string
and BlockStatement = BlockStatement Token "Statement list"
and PropertyDeclaration = PropertyDeclaration Token string bool Variable "Expression option"
and MethodDeclaration =
    MethodDeclaration Token string bool Identifier "Variable list" BlockStatement
and ConstantDeclaration = ConstantDeclaration Token string Identifier "Expression option"
and CatchClause = CatchClause Token "Identifier option" Variable BlockStatement

record Program =
  Statements :: "Statement list"

section \<open>Parser\<close>

definition LOWEST :: int where "LOWEST = 1"
definition TERNARY :: int where "TERNARY = 2"
definition EQUALS :: int where "EQUALS = 3"
definition LESSGREATER :: int where "LESSGREATER = 4"
definition SUM_P :: int where "SUM_P = 5"  \<comment> \<open>the constant \<^verbatim>\<open>SUM\<close>\<close>
definition PRODUCT :: int where "PRODUCT = 6"
definition PREFIX :: int where "PREFIX = 7"
definition CALL :: int where "CALL = 8"

lemmas precedence_defs =
  LOWEST_def TERNARY_def EQUALS_def LESSGREATER_def SUM_P_def PRODUCT_def PREFIX_def CALL_def

definition precedences :: "TokenType \<rightharpoonup> int" where
  "precedences = map_of
    [(QUESTION, TERNARY),
     (QUESTION_QUESTION, EQUALS),
     (QUESTION_QUESTION_ASSIGN, EQUALS),
     (QUESTION_ARROW, CALL),
     (EQ, EQUALS),
     (NOT_EQ, EQUALS),
     (LT, LESSGREATER),
     (GT, LESSGREATER),
     (LTE, LESSGREATER),
     (GTE, LESSGREATER),
     (SPACESHIP, LESSGREATER),
     (PLUS, SUM_P),
     (MINUS, SUM_P),
     (CONCAT, SUM_P),
     (DIVIDE, PRODUCT),
     (MULTIPLY, PRODUCT),
     (MODULO, PRODUCT),
     (LPAREN, CALL),
     (OBJECT_ACCESS, CALL),
     (STATIC_ACCESS, CALL)]"

text \<open>
  The parser state.  The two tables of parse functions are filled once by \<^verbatim>\<open>NewParser\<close>
  and never change; they are the functions \<open>prefixParseFns\<close> and \<open>infixParseFns\<close> below.
\<close>

record Parser =
  lexer :: Lexer
  curToken :: Token
  peekToken :: Token
  errors :: "string list"

text \<open>
  A parse function takes the parser state and returns its result with the new state.
  \<open>None\<close> stands for no normal return: a Go panic (a slice expression out of range), or
  the recursion budget of the model used up (see \<open>parseExpression\<close>).
\<close>

type_synonym 'a parse = "Parser \<Rightarrow> ('a \<times> Parser) option"

definition nextToken :: "Parser \<Rightarrow> Parser option" where
  "nextToken p =
     (case NextToken (lexer p) of
        None \<Rightarrow> None
      | Some (tok, l') \<Rightarrow> Some (p\<lparr> curToken := peekToken p, peekToken := tok, lexer := l' \<rparr>))"

definition zeroToken :: Token where
  "zeroToken = \<lparr> Type = 0, Literal = [], Line = 0, Column = 0 \<rparr>"

definition NewParser :: "Lexer \<Rightarrow> Parser option" where
  "NewParser l =
     do { p1 \<leftarrow> nextToken \<lparr> lexer = l, curToken = zeroToken, peekToken = zeroToken, errors = [] \<rparr>;
          nextToken p1 }"

definition curTokenIs :: "TokenType \<Rightarrow> Parser \<Rightarrow> bool" where
  "curTokenIs t p \<longleftrightarrow> Type (curToken p) = t"

definition peekTokenIs :: "TokenType \<Rightarrow> Parser \<Rightarrow> bool" where
  "peekTokenIs t p \<longleftrightarrow> Type (peekToken p) = t"

definition peekError :: "TokenType \<Rightarrow> Parser \<Rightarrow> Parser" where
  "peekError t p =
     p\<lparr> errors := errors p @
          [''expected next token to be '' @ TokenType_String t @ '', got ''
           @ TokenType_String (Type (peekToken p)) @ '' instead''] \<rparr>"

definition expectPeek :: "TokenType \<Rightarrow> bool parse" where
  "expectPeek t p =
     (if peekTokenIs t p then do { p1 \<leftarrow> nextToken p; Some (True, p1) }
      else Some (False, peekError t p))"

definition noPrefixParseFnError :: "TokenType \<Rightarrow> Parser \<Rightarrow> Parser" where
  "noPrefixParseFnError t p =
     p\<lparr> errors := errors p @
          [''no prefix parse function for '' @ TokenType_String t @ '' found''] \<rparr>"

definition peekPrecedence :: "Parser \<Rightarrow> int" where
  "peekPrecedence p = (case precedences (Type (peekToken p)) of Some v \<Rightarrow> v | None \<Rightarrow> LOWEST)"

definition curPrecedence :: "Parser \<Rightarrow> int" where
  "curPrecedence p = (case precedences (Type (curToken p)) of Some v \<Rightarrow> v | None \<Rightarrow> LOWEST)"

text \<open>\<^verbatim>\<open>if p.peekTokenIs(t) { p.nextToken() }\<close>\<close>

definition skipPeek :: "TokenType \<Rightarrow> Parser \<Rightarrow> Parser option" where
  "skipPeek t p = (if peekTokenIs t p then nextToken p else Some p)"

text \<open>
  \<^verbatim>\<open>&Variable{Token: p.curToken, Name: p.curToken.Literal[1:]}\<close>; the slice expression
  panics on an empty literal.
\<close>

definition curVariable :: "Parser \<Rightarrow> Variable option" where
  "curVariable p =
     (case Literal (curToken p) of
        [] \<Rightarrow> None
      | c # name \<Rightarrow> Some (Variable (curToken p) name))"

definition curIdentifier :: "Parser \<Rightarrow> Identifier" where
  "curIdentifier p = Identifier (curToken p) (Literal (curToken p))"

subsection \<open>Prefix parse functions without recursion\<close>

definition parseIdentifier :: "Expression option parse" where
  "parseIdentifier p = Some (Some (IdentifierExpr (curIdentifier p)), p)"

definition parseVariable :: "Expression option parse" where
  "parseVariable p = do { v \<leftarrow> curVariable p; Some (Some (VariableExpr v), p) }"

definition parseIntegerLiteral :: "Expression option parse" where
  "parseIntegerLiteral p =
     (case ParseInt (Literal (curToken p)) of
        None \<Rightarrow>
          Some (None, p\<lparr> errors := errors p @
            [''could not parse '' @ go_quote (Literal (curToken p)) @ '' as integer''] \<rparr>)
      | Some v \<Rightarrow> Some (Some (IntegerLiteral (curToken p) v), p))"

definition parseFloatLiteral :: "Expression option parse" where
  "parseFloatLiteral p =
     (if \<not> ParseFloat_ok (Literal (curToken p)) then
        Some (None, p\<lparr> errors := errors p @
          [''could not parse '' @ go_quote (Literal (curToken p)) @ '' as float''] \<rparr>)
      else Some (Some (FloatLiteral (curToken p)), p))"

text \<open>
  The length of the variable name at the start of a part of an interpolated string:
  \<^verbatim>\<open>for j < len(part) && (isLetter(part[j]) || (j > 0 && isDigit(part[j]))) { j++ }\<close>
\<close>

fun varNameLength :: "nat \<Rightarrow> string \<Rightarrow> nat" where
  "varNameLength j [] = j"
| "varNameLength j (c # cs) =
     (if isLetter c \<or> (j > 0 \<and> isDigit c) then varNameLength (j + 1) cs else j)"

definition interpolatedPart :: "Token \<Rightarrow> string \<Rightarrow> Expression list" where
  "interpolatedPart cur part =
     (let j = varNameLength 0 part in
      if j > 0 then
        (let varName = take j part;
             varToken = \<lparr> Type = VARIABLE, Literal = CHR ''$'' # varName,
                          Line = Line cur, Column = Column cur \<rparr>
         in VariableExpr (Variable varToken varName) #
            (if j < length part then
               (let remaining = drop j part;
                    stringToken = \<lparr> Type = STRING, Literal = remaining,
                                     Line = Line cur, Column = Column cur \<rparr>
                in [StringLiteral stringToken remaining])
             else []))
      else
        (let stringToken = \<lparr> Type = STRING, Literal = CHR ''$'' # part,
                              Line = Line cur, Column = Column cur \<rparr>
         in [StringLiteral stringToken (CHR ''$'' # part)]))"

definition parseInterpolatedString :: "Expression option parse" where
  "parseInterpolatedString p =
     (let cur = curToken p;
          parts = split_on (CHR ''$'') (Literal cur);
          first =
            (if hd parts \<noteq> [] then
               [StringLiteral \<lparr> Type = STRING, Literal = hd parts,
                                 Line = Line cur, Column = Column cur \<rparr> (hd parts)]
             else [])
      in Some (Some (InterpolatedString cur
                       (first @ concat (map (interpolatedPart cur) (tl parts)))), p))"

definition parseStringLiteral :: "Expression option parse" where
  "parseStringLiteral p =
     (if CHR ''$'' \<in> set (Literal (curToken p)) then parseInterpolatedString p
      else Some (Some (StringLiteral (curToken p) (Literal (curToken p))), p))"

definition parseBooleanLiteral :: "Expression option parse" where
  "parseBooleanLiteral p = Some (Some (BooleanLiteral (curToken p) (curTokenIs TRUE p)), p)"

definition parsePostfixExpression :: "Expression option \<Rightarrow> Expression option parse" where
  "parsePostfixExpression left p =
     Some (Some (PostfixExpression (curToken p) left (Literal (curToken p))), p)"

text \<open>
  \<^verbatim>\<open>parseFunctionParameters\<close>; the result \<open>[]\<close> also stands for the \<^verbatim>\<open>nil\<close> slice returned
  when the closing parenthesis is missing.
\<close>

fun parseFunctionParameters_loop :: "nat \<Rightarrow> Variable list \<Rightarrow> Variable list parse" where
  "parseFunctionParameters_loop 0 identifiers p = None"
| "parseFunctionParameters_loop (Suc n) identifiers p =
     (if peekTokenIs COMMA p then
        do { p1 \<leftarrow> nextToken p;
             p2 \<leftarrow> nextToken p1;
             if Type (curToken p2) = VARIABLE then
               do { ident \<leftarrow> curVariable p2;
                    parseFunctionParameters_loop n (identifiers @ [ident]) p2 }
             else parseFunctionParameters_loop n identifiers p2 }
      else Some (identifiers, p))"

definition parseFunctionParameters :: "nat \<Rightarrow> Variable list parse" where
  "parseFunctionParameters n p =
     (if peekTokenIs RPAREN p then do { p1 \<leftarrow> nextToken p; Some ([], p1) }
      else
        do { p1 \<leftarrow> nextToken p;
             identifiers \<leftarrow>
               (if Type (curToken p1) = VARIABLE
                then do { ident \<leftarrow> curVariable p1; Some [ident] }
                else Some []);
             (identifiers, p2) \<leftarrow> parseFunctionParameters_loop n identifiers p1;
             (ok, p3) \<leftarrow> expectPeek RPAREN p2;
             if \<not> ok then Some ([], p3) else Some (identifiers, p3) })"

subsection \<open>Expressions\<close>

text \<open>
  The parse functions call each other recursively through \<^verbatim>\<open>parseExpression\<close>,
  \<^verbatim>\<open>parseStatement\<close> and \<^verbatim>\<open>parseBlockStatement\<close>.  Each function below takes the ones it
  calls as arguments \<open>pe\<close>, \<open>ps\<close> and \<open>pb\<close>; the recursion is closed at the end of the
  section.  A function with a loop takes the greatest number \<open>n\<close> of iterations the model
  follows; the loop is the function of the same name with the suffix \<open>_loop\<close>.

  \<open>expect t p k\<close> is \<^verbatim>\<open>if !p.expectPeek(t) { return nil }\<close> followed by \<open>k\<close>.
\<close>

definition expect ::
  "TokenType \<Rightarrow> Parser \<Rightarrow> (Parser \<Rightarrow> ('a option \<times> Parser) option) \<Rightarrow> ('a option \<times> Parser) option"
where
  "expect t p k =
     (case expectPeek t p of
        None \<Rightarrow> None
      | Some (ok, p1) \<Rightarrow> if ok then k p1 else Some (None, p1))"

definition parsePrefixExpression :: "(int \<Rightarrow> Expression option parse) \<Rightarrow> Expression option parse"
where
  "parsePrefixExpression pe p =
     do { let tok = curToken p;
          p1 \<leftarrow> nextToken p;
          (right, p2) \<leftarrow> pe PREFIX p1;
          Some (Some (PrefixExpression tok (Literal tok) right), p2) }"

definition parseInfixExpression ::
  "(int \<Rightarrow> Expression option parse) \<Rightarrow> Expression option \<Rightarrow> Expression option parse"
where
  "parseInfixExpression pe left p =
     do { let tok = curToken p;
          let precedence = curPrecedence p;
          p1 \<leftarrow> nextToken p;
          (right, p2) \<leftarrow> pe precedence p1;
          Some (Some (InfixExpression tok left (Literal tok) right), p2) }"

definition parseAssignmentExpression ::
  "(int \<Rightarrow> Expression option parse) \<Rightarrow> Expression option \<Rightarrow> Expression option parse"
where
  "parseAssignmentExpression pe left p =
     (case left of
        Some (VariableExpr variable) \<Rightarrow>
          do { let tok = curToken p;
               p1 \<leftarrow> nextToken p;
               (v, p2) \<leftarrow> pe LOWEST p1;
               Some (Some (AssignmentExpression tok variable v), p2) }
      | _ \<Rightarrow>
          Some (None, p\<lparr> errors := errors p @ [''left side of assignment must be a variable''] \<rparr>))"

definition parseAssignmentExpressionFromVariable ::
  "(int \<Rightarrow> Expression option parse) \<Rightarrow> Expression option parse"
where
  "parseAssignmentExpressionFromVariable pe p =
     do { variable \<leftarrow> curVariable p;
          expect ASSIGN p (\<lambda>p1.
            do { let tok = curToken p1;
                 p2 \<leftarrow> nextToken p1;
                 (v, p3) \<leftarrow> pe LOWEST p2;
                 Some (Some (AssignmentExpression tok variable v), p3) }) }"

definition parseGroupedExpression ::
  "(int \<Rightarrow> Expression option parse) \<Rightarrow> Expression option parse"
where
  "parseGroupedExpression pe p =
     do { p1 \<leftarrow> nextToken p;
          (exp, p2) \<leftarrow> pe LOWEST p1;
          expect RPAREN p2 (\<lambda>p3. Some (exp, p3)) }"

text \<open>
  \<^verbatim>\<open>for p.peekTokenIs(COMMA) { p.nextToken(); p.nextToken(); ... append(..., p.parseExpression(LOWEST)) }\<close>:
  the loop of \<^verbatim>\<open>parseExpressionList\<close>, of the indexed branch of \<^verbatim>\<open>parseArrayLiteral\<close> and
  of \<^verbatim>\<open>parseEchoStatement\<close>.
\<close>

fun parseExpressionList_loop ::
  "nat \<Rightarrow> (int \<Rightarrow> Expression option parse) \<Rightarrow> Expression option list
     \<Rightarrow> Expression option list parse"
where
  "parseExpressionList_loop 0 pe args p = None"
| "parseExpressionList_loop (Suc n) pe args p =
     (if peekTokenIs COMMA p then
        do { p1 \<leftarrow> nextToken p;
             p2 \<leftarrow> nextToken p1;
             (e, p3) \<leftarrow> pe LOWEST p2;
             parseExpressionList_loop n pe (args @ [e]) p3 }
      else Some (args, p))"

definition parseExpressionList ::
  "nat \<Rightarrow> (int \<Rightarrow> Expression option parse) \<Rightarrow> TokenType \<Rightarrow> Expression option list parse"
where
  "parseExpressionList n pe end_t p =
     (if peekTokenIs end_t p then do { p1 \<leftarrow> nextToken p; Some ([], p1) }
      else
        do { p1 \<leftarrow> nextToken p;
             (e, p2) \<leftarrow> pe LOWEST p1;
             (args, p3) \<leftarrow> parseExpressionList_loop n pe [e] p2;
             (ok, p4) \<leftarrow> expectPeek end_t p3;
             if \<not> ok then Some ([], p4) else Some (args, p4) })"

definition parseCallExpression ::
  "nat \<Rightarrow> (int \<Rightarrow> Expression option parse) \<Rightarrow> Expression option \<Rightarrow> Expression option parse"
where
  "parseCallExpression n pe fn p =
     do { let tok = curToken p;
          (args, p1) \<leftarrow> parseExpressionList n pe RPAREN p;
          Some (Some (CallExpression tok fn args), p1) }"

text \<open>The loop over the remaining pairs of an associative array; \<open>None\<close> is its \<^verbatim>\<open>return nil\<close>.\<close>

fun parseArrayPairs_loop ::
  "nat \<Rightarrow> (int \<Rightarrow> Expression option parse) \<Rightarrow> (Expression option \<times> Expression option) list
     \<Rightarrow> (Expression option \<times> Expression option) list option parse"
where
  "parseArrayPairs_loop 0 pe pairs p = None"
| "parseArrayPairs_loop (Suc n) pe pairs p =
     (if peekTokenIs COMMA p then
        do { p1 \<leftarrow> nextToken p;
             p2 \<leftarrow> nextToken p1;
             (key, p3) \<leftarrow> pe LOWEST p2;
             expect DOUBLE_ARROW p3 (\<lambda>p4.
               do { p5 \<leftarrow> nextToken p4;
                    (v, p6) \<leftarrow> pe LOWEST p5;
                    parseArrayPairs_loop n pe (pairs @ [(key, v)]) p6 }) }
      else Some (Some pairs, p))"

definition parseArrayLiteral ::
  "nat \<Rightarrow> (int \<Rightarrow> Expression option parse) \<Rightarrow> Expression option parse"
where
  "parseArrayLiteral n pe p =
     (let tok = curToken p in
      if peekTokenIs RBRACKET p then
        do { p1 \<leftarrow> nextToken p; Some (Some (ArrayLiteral tok []), p1) }
      else
        do { p1 \<leftarrow> nextToken p;
             (firstElement, p2) \<leftarrow> pe LOWEST p1;
             if peekTokenIs DOUBLE_ARROW p2 then
               do { p3 \<leftarrow> nextToken p2;
                    p4 \<leftarrow> nextToken p3;
                    (v, p5) \<leftarrow> pe LOWEST p4;
                    (r, p6) \<leftarrow> parseArrayPairs_loop n pe [(firstElement, v)] p5;
                    (case r of
                       None \<Rightarrow> Some (None, p6)
                     | Some pairs \<Rightarrow>
                         expect RBRACKET p6 (\<lambda>p7.
                           Some (Some (AssociativeArrayLiteral tok pairs), p7))) }
             else
               do { (elements, p3) \<leftarrow> parseExpressionList_loop n pe [firstElement] p2;
                    expect RBRACKET p3 (\<lambda>p4. Some (Some (ArrayLiteral tok elements), p4)) } })"

definition parseIndexExpression ::
  "(int \<Rightarrow> Expression option parse) \<Rightarrow> Expression option \<Rightarrow> Expression option parse"
where
  "parseIndexExpression pe left p =
     do { let tok = curToken p;
          p1 \<leftarrow> nextToken p;
          (index, p2) \<leftarrow> pe LOWEST p1;
          expect RBRACKET p2 (\<lambda>p3. Some (Some (IndexExpression tok left index), p3)) }"

definition parseNewExpression ::
  "nat \<Rightarrow> (int \<Rightarrow> Expression option parse) \<Rightarrow> Expression option parse"
where
  "parseNewExpression n pe p =
     (let tok = curToken p in
      expect IDENT p (\<lambda>p1.
        let className = curIdentifier p1 in
        if peekTokenIs LPAREN p1 then
          do { p2 \<leftarrow> nextToken p1;
               (args, p3) \<leftarrow> parseExpressionList n pe RPAREN p2;
               Some (Some (NewExpression tok className args), p3) }
        else Some (Some (NewExpression tok className []), p1)))"

definition parseObjectAccessExpression ::
  "(int \<Rightarrow> Expression option parse) \<Rightarrow> Expression option \<Rightarrow> Expression option parse"
where
  "parseObjectAccessExpression pe left p =
     do { let tok = curToken p;
          p1 \<leftarrow> nextToken p;
          (property, p2) \<leftarrow> pe CALL p1;
          Some (Some (ObjectAccessExpression tok left property), p2) }"

definition parseStaticAccessExpression ::
  "(int \<Rightarrow> Expression option parse) \<Rightarrow> Expression option \<Rightarrow> Expression option parse"
where
  "parseStaticAccessExpression pe left p =
     do { let tok = curToken p;
          p1 \<leftarrow> nextToken p;
          (property, p2) \<leftarrow> pe CALL p1;
          Some (Some (StaticAccessExpression tok left property), p2) }"

definition parseTernaryExpression ::
  "(int \<Rightarrow> Expression option parse) \<Rightarrow> Expression option \<Rightarrow> Expression option parse"
where
  "parseTernaryExpression pe condition p =
     do { let tok = curToken p;
          p1 \<leftarrow> nextToken p;
          (trueValue, p2) \<leftarrow> pe LOWEST p1;
          expect COLON p2 (\<lambda>p3.
            do { p4 \<leftarrow> nextToken p3;
                 (falseValue, p5) \<leftarrow> pe LOWEST p4;
                 Some (Some (TernaryExpression tok condition trueValue falseValue), p5) }) }"

definition parseYieldExpression ::
  "(int \<Rightarrow> Expression option parse) \<Rightarrow> Expression option parse"
where
  "parseYieldExpression pe p =
     (let tok = curToken p in
      if \<not> peekTokenIs SEMICOLON p \<and> \<not> peekTokenIs RBRACE p \<and> \<not> peekTokenIs EOF p then
        do { p1 \<leftarrow> nextToken p;
             (v, p2) \<leftarrow> pe LOWEST p1;
             if peekTokenIs DOUBLE_ARROW p2 then
               do { p3 \<leftarrow> nextToken p2;
                    p4 \<leftarrow> nextToken p3;
                    (v2, p5) \<leftarrow> pe LOWEST p4;
                    Some (Some (YieldExpression tok v v2), p5) }
             else Some (Some (YieldExpression tok None v), p2) }
      else Some (Some (YieldExpression tok None None), p))"

text \<open>The loop over the variables of a \<^verbatim>\<open>use (...)\<close> clause of an anonymous function.\<close>

fun parseUseClause_loop :: "nat \<Rightarrow> Variable list \<Rightarrow> Variable list parse" where
  "parseUseClause_loop 0 useClause p = None"
| "parseUseClause_loop (Suc n) useClause p =
     (if \<not> curTokenIs RPAREN p \<and> \<not> curTokenIs EOF p then
        do { useClause' \<leftarrow>
               (if Type (curToken p) = VARIABLE
                then do { v \<leftarrow> curVariable p; Some (useClause @ [v]) }
                else Some useClause);
             p1 \<leftarrow> skipPeek COMMA p;
             p2 \<leftarrow> nextToken p1;
             parseUseClause_loop n useClause' p2 }
      else Some (useClause, p))"

definition parseAnonymousFunction :: "nat \<Rightarrow> BlockStatement parse \<Rightarrow> Expression option parse"
where
  "parseAnonymousFunction n pb p =
     (let tok = curToken p in
      expect LPAREN p (\<lambda>p1.
        do { (parameters, p2) \<leftarrow> parseFunctionParameters n p1;
             (r, p3) \<leftarrow>
               (if peekTokenIs USE p2 then
                  do { p2a \<leftarrow> nextToken p2;
                       expect LPAREN p2a (\<lambda>p2b.
                         do { p2c \<leftarrow> nextToken p2b;
                              (useClause, p2d) \<leftarrow> parseUseClause_loop n [] p2c;
                              Some (Some useClause, p2d) }) }
                else Some (Some [], p2));
             (case r of
                None \<Rightarrow> Some (None, p3)
              | Some useClause \<Rightarrow>
                  expect LBRACE p3 (\<lambda>p4.
                    do { (body, p5) \<leftarrow> pb p4;
                         Some (Some (AnonymousFunction tok parameters useClause body), p5) })) }))"

text \<open>The two tables that \<^verbatim>\<open>NewParser\<close> registers.\<close>

definition prefixParseFns ::
  "nat \<Rightarrow> (int \<Rightarrow> Expression option parse) \<Rightarrow> BlockStatement parse
     \<Rightarrow> TokenType \<rightharpoonup> Expression option parse"
where
  "prefixParseFns n pe pb = map_of
    [(IDENT, parseIdentifier),
     (VARIABLE, parseVariable),
     (INT_T, parseIntegerLiteral),
     (FLOAT, parseFloatLiteral),
     (STRING, parseStringLiteral),
     (TRUE, parseBooleanLiteral),
     (FALSE, parseBooleanLiteral),
     (NOT, parsePrefixExpression pe),
     (MINUS, parsePrefixExpression pe),
     (INCREMENT, parsePrefixExpression pe),
     (DECREMENT, parsePrefixExpression pe),
     (NEW, parseNewExpression n pe),
     (FUNCTION, parseAnonymousFunction n pb),
     (YIELD, parseYieldExpression pe),
     (LPAREN, parseGroupedExpression pe),
     (LBRACKET, parseArrayLiteral n pe)]"

definition infixParseFns ::
  "nat \<Rightarrow> (int \<Rightarrow> Expression option parse)
     \<Rightarrow> TokenType \<rightharpoonup> (Expression option \<Rightarrow> Expression option parse)"
where
  "infixParseFns n pe = map_of
    [(PLUS, parseInfixExpression pe),
     (MINUS, parseInfixExpression pe),
     (MULTIPLY, parseInfixExpression pe),
     (DIVIDE, parseInfixExpression pe),
     (MODULO, parseInfixExpression pe),
     (CONCAT, parseInfixExpression pe),
     (EQ, parseInfixExpression pe),
     (NOT_EQ, parseInfixExpression pe),
     (LT, parseInfixExpression pe),
     (GT, parseInfixExpression pe),
     (LTE, parseInfixExpression pe),
     (GTE, parseInfixExpression pe),
     (SPACESHIP, parseInfixExpression pe),
     (AND, parseInfixExpression pe),
     (OR, parseInfixExpression pe),
     (QUESTION, parseTernaryExpression pe),
     (QUESTION_QUESTION, parseInfixExpression pe),
     (QUESTION_QUESTION_ASSIGN, parseAssignmentExpression pe),
     (QUESTION_ARROW, parseObjectAccessExpression pe),
     (ASSIGN, parseAssignmentExpression pe),
     (LPAREN, parseCallExpression n pe),
     (LBRACKET, parseIndexExpression pe),
     (INCREMENT, parsePostfixExpression),
     (DECREMENT, parsePostfixExpression),
     (OBJECT_ACCESS, parseObjectAccessExpression pe),
     (STATIC_ACCESS, parseStaticAccessExpression pe)]"

text \<open>
  The loop of \<^verbatim>\<open>parseExpression\<close>:
  \<^verbatim>\<open>for !p.peekTokenIs(SEMICOLON) && precedence < p.peekPrecedence() { ... }\<close>
\<close>

fun parseExpression_loop ::
  "nat \<Rightarrow> (int \<Rightarrow> Expression option parse) \<Rightarrow> int \<Rightarrow> Expression option
     \<Rightarrow> Expression option parse"
where
  "parseExpression_loop 0 pe precedence leftExp p = None"
| "parseExpression_loop (Suc n) pe precedence leftExp p =
     (if \<not> peekTokenIs SEMICOLON p \<and> precedence < peekPrecedence p then
        (case infixParseFns n pe (Type (peekToken p)) of
           None \<Rightarrow> Some (leftExp, p)
         | Some infix \<Rightarrow>
             do { p1 \<leftarrow> nextToken p;
                  (leftExp', p2) \<leftarrow> infix leftExp p1;
                  parseExpression_loop n pe precedence leftExp' p2 })
      else Some (leftExp, p))"

definition parseExpression_body ::
  "nat \<Rightarrow> (int \<Rightarrow> Expression option parse) \<Rightarrow> BlockStatement parse \<Rightarrow> int
     \<Rightarrow> Expression option parse"
where
  "parseExpression_body n pe pb precedence p =
     (case prefixParseFns n pe pb (Type (curToken p)) of
        None \<Rightarrow> Some (None, noPrefixParseFnError (Type (curToken p)) p)
      | Some prefix \<Rightarrow>
          do { (leftExp, p1) \<leftarrow> prefix p;
               parseExpression_loop n pe precedence leftExp p1 })"

subsection \<open>Statements\<close>

text \<open>
  A statement parser that returns a pointer (\<^verbatim>\<open>*IfStatement\<close>, ...) has an \<open>option\<close> as
  its result, \<open>None\<close> for the \<^verbatim>\<open>nil\<close> pointer.
\<close>

definition parseExpressionStatement :: "(int \<Rightarrow> Expression option parse) \<Rightarrow> Statement parse"
where
  "parseExpressionStatement pe p =
     do { let tok = curToken p;
          (e, p1) \<leftarrow>
            (if Type (curToken p) = VARIABLE \<and> Type (peekToken p) = ASSIGN
             then parseAssignmentExpressionFromVariable pe p
             else pe LOWEST p);
          p2 \<leftarrow> skipPeek SEMICOLON p1;
          Some (ExpressionStatement tok e, p2) }"

definition parseFunctionDeclaration :: "nat \<Rightarrow> BlockStatement parse \<Rightarrow> Statement option parse"
where
  "parseFunctionDeclaration n pb p =
     (let tok = curToken p in
      expect IDENT p (\<lambda>p1.
        let name = curIdentifier p1 in
        expect LPAREN p1 (\<lambda>p2.
          do { (parameters, p3) \<leftarrow> parseFunctionParameters n p2;
               expect LBRACE p3 (\<lambda>p4.
                 do { (body, p5) \<leftarrow> pb p4;
                      Some (Some (FunctionDeclaration tok name parameters body), p5) }) })))"

text \<open>
  \<^verbatim>\<open>parseBlockStatement\<close>.  The test \<^verbatim>\<open>stmt != nil\<close> of the loop compares an interface
  value that \<^verbatim>\<open>parseStatement\<close> built from a pointer, so it always holds (see \<open>NilPointer\<close>):
  every statement is appended.
\<close>

fun parseBlockStatement_loop :: "nat \<Rightarrow> Statement parse \<Rightarrow> Statement list \<Rightarrow> Statement list parse"
where
  "parseBlockStatement_loop 0 ps stmts p = None"
| "parseBlockStatement_loop (Suc n) ps stmts p =
     (if \<not> curTokenIs RBRACE p \<and> \<not> curTokenIs EOF p then
        do { (stmt, p1) \<leftarrow> ps p;
             p2 \<leftarrow> nextToken p1;
             parseBlockStatement_loop n ps (stmts @ [stmt]) p2 }
      else Some (stmts, p))"

definition parseBlockStatement_body :: "nat \<Rightarrow> Statement parse \<Rightarrow> BlockStatement parse" where
  "parseBlockStatement_body n ps p =
     do { let tok = curToken p;
          p1 \<leftarrow> nextToken p;
          (stmts, p2) \<leftarrow> parseBlockStatement_loop n ps [] p1;
          Some (BlockStatement tok stmts, p2) }"

definition parseReturnStatement :: "(int \<Rightarrow> Expression option parse) \<Rightarrow> Statement parse" where
  "parseReturnStatement pe p =
     do { let tok = curToken p;
          p1 \<leftarrow> nextToken p;
          (returnValue, p2) \<leftarrow>
            (if \<not> curTokenIs SEMICOLON p1 then pe LOWEST p1 else Some (None, p1));
          p3 \<leftarrow> skipPeek SEMICOLON p2;
          Some (ReturnStatement tok returnValue, p3) }"

definition parseIfStatement ::
  "(int \<Rightarrow> Expression option parse) \<Rightarrow> BlockStatement parse \<Rightarrow> Statement option parse"
where
  "parseIfStatement pe pb p =
     (let tok = curToken p in
      expect LPAREN p (\<lambda>p1.
        do { p2 \<leftarrow> nextToken p1;
             (condition, p3) \<leftarrow> pe LOWEST p2;
             expect RPAREN p3 (\<lambda>p4.
               expect LBRACE p4 (\<lambda>p5.
                 do { (consequence, p6) \<leftarrow> pb p5;
                      if peekTokenIs ELSE p6 then
                        do { p7 \<leftarrow> nextToken p6;
                             expect LBRACE p7 (\<lambda>p8.
                               do { (alternative, p9) \<leftarrow> pb p8;
                                    Some (Some (IfStatement tok condition consequence
                                                  (Some alternative)), p9) }) }
                      else Some (Some (IfStatement tok condition consequence None), p6) })) }))"

definition parseEchoStatement ::
  "nat \<Rightarrow> (int \<Rightarrow> Expression option parse) \<Rightarrow> Statement parse"
where
  "parseEchoStatement n pe p =
     do { let tok = curToken p;
          p1 \<leftarrow> nextToken p;
          (e, p2) \<leftarrow> pe LOWEST p1;
          (vals, p3) \<leftarrow> parseExpressionList_loop n pe [e] p2;
          p4 \<leftarrow> skipPeek SEMICOLON p3;
          Some (EchoStatement tok vals, p4) }"

text \<open>The init part of a \<^verbatim>\<open>for\<close> statement, and its update part.\<close>

definition parseForInit :: "(int \<Rightarrow> Expression option parse) \<Rightarrow> Expression option parse" where
  "parseForInit pe p =
     (if Type (curToken p) = VARIABLE \<and> Type (peekToken p) = ASSIGN
      then parseAssignmentExpressionFromVariable pe p
      else pe LOWEST p)"

definition parseForUpdate :: "(int \<Rightarrow> Expression option parse) \<Rightarrow> Expression option parse" where
  "parseForUpdate pe p =
     (if Type (curToken p) = VARIABLE \<and> Type (peekToken p) = ASSIGN
      then parseAssignmentExpressionFromVariable pe p
      else if Type (curToken p) = VARIABLE \<and> Type (peekToken p) = INCREMENT then
        do { variable \<leftarrow> curVariable p;
             p1 \<leftarrow> nextToken p;
             Some (Some (PostfixExpression (curToken p1) (Some (VariableExpr variable))
                           (Literal (curToken p1))), p1) }
      else pe LOWEST p)"

definition parseForStatement ::
  "(int \<Rightarrow> Expression option parse) \<Rightarrow> BlockStatement parse \<Rightarrow> Statement option parse"
where
  "parseForStatement pe pb p =
     (let tok = curToken p in
      expect LPAREN p (\<lambda>p1.
        do { p2 \<leftarrow> nextToken p1;
             (init, p3) \<leftarrow> parseForInit pe p2;
             expect SEMICOLON p3 (\<lambda>p4.
               do { p5 \<leftarrow> nextToken p4;
                    (condition, p6) \<leftarrow> pe LOWEST p5;
                    expect SEMICOLON p6 (\<lambda>p7.
                      do { p8 \<leftarrow> nextToken p7;
                           (update, p9) \<leftarrow> parseForUpdate pe p8;
                           expect RPAREN p9 (\<lambda>p10.
                             expect LBRACE p10 (\<lambda>p11.
                               do { (body, p12) \<leftarrow> pb p11;
                                    Some (Some (ForStatement tok init condition update body),
                                          p12) })) }) }) }))"

definition parseWhileStatement ::
  "(int \<Rightarrow> Expression option parse) \<Rightarrow> BlockStatement parse \<Rightarrow> Statement option parse"
where
  "parseWhileStatement pe pb p =
     (let tok = curToken p in
      expect LPAREN p (\<lambda>p1.
        do { p2 \<leftarrow> nextToken p1;
             (condition, p3) \<leftarrow> pe LOWEST p2;
             expect RPAREN p3 (\<lambda>p4.
               expect LBRACE p4 (\<lambda>p5.
                 do { (body, p6) \<leftarrow> pb p5;
                      Some (Some (WhileStatement tok condition body), p6) })) }))"

text \<open>
  The key of a \<^verbatim>\<open>foreach\<close>, when the token after the current one is \<^verbatim>\<open>=>\<close>: the outer
  \<open>None\<close> of the result is the \<^verbatim>\<open>return nil\<close> of the statement.
\<close>

definition parseForeachKey :: "Variable option option parse" where
  "parseForeachKey p =
     (if peekTokenIs DOUBLE_ARROW p then
        (if Type (curToken p) \<noteq> VARIABLE then
           Some (None, p\<lparr> errors := errors p @ [''foreach key must be a variable''] \<rparr>)
         else
           do { key \<leftarrow> curVariable p;
                p1 \<leftarrow> nextToken p;
                p2 \<leftarrow> nextToken p1;
                Some (Some (Some key), p2) })
      else Some (Some None, p))"

definition parseForeachStatement ::
  "(int \<Rightarrow> Expression option parse) \<Rightarrow> BlockStatement parse \<Rightarrow> Statement option parse"
where
  "parseForeachStatement pe pb p =
     (let tok = curToken p in
      expect LPAREN p (\<lambda>p1.
        do { p2 \<leftarrow> nextToken p1;
             (array, p3) \<leftarrow> pe LOWEST p2;
             expect AS p3 (\<lambda>p4.
               do { p5 \<leftarrow> nextToken p4;
                    (r, p6) \<leftarrow> parseForeachKey p5;
                    (case r of
                       None \<Rightarrow> Some (None, p6)
                     | Some key \<Rightarrow>
                         if Type (curToken p6) \<noteq> VARIABLE then
                           Some (None, p6\<lparr> errors := errors p6 @
                                   [''foreach value must be a variable''] \<rparr>)
                         else
                           do { v \<leftarrow> curVariable p6;
                                expect RPAREN p6 (\<lambda>p7.
                                  expect LBRACE p7 (\<lambda>p8.
                                    do { (body, p9) \<leftarrow> pb p8;
                                         Some (Some (ForeachStatement tok array key v body),
                                               p9) })) }) }) }))"

definition parseBreakStatement :: "(int \<Rightarrow> Expression option parse) \<Rightarrow> Statement parse" where
  "parseBreakStatement pe p =
     do { let tok = curToken p;
          (level, p1) \<leftarrow>
            (if peekTokenIs INT_T p then do { p' \<leftarrow> nextToken p; pe LOWEST p' }
             else Some (None, p));
          p2 \<leftarrow> skipPeek SEMICOLON p1;
          Some (BreakStatement tok level, p2) }"

definition parseContinueStatement :: "(int \<Rightarrow> Expression option parse) \<Rightarrow> Statement parse" where
  "parseContinueStatement pe p =
     do { let tok = curToken p;
          (level, p1) \<leftarrow>
            (if peekTokenIs INT_T p then do { p' \<leftarrow> nextToken p; pe LOWEST p' }
             else Some (None, p));
          p2 \<leftarrow> skipPeek SEMICOLON p1;
          Some (ContinueStatement tok level, p2) }"

definition isVisibility :: "Parser \<Rightarrow> bool" where
  "isVisibility p \<longleftrightarrow> curTokenIs PUBLIC p \<or> curTokenIs PRIVATE p \<or> curTokenIs PROTECTED p"

definition parseConstantDeclaration ::
  "(int \<Rightarrow> Expression option parse) \<Rightarrow> ConstantDeclaration option parse"
where
  "parseConstantDeclaration pe p =
     (let tok = curToken p;
          rest = (\<lambda>visibility p1.
            expect IDENT p1 (\<lambda>p2.
              let name = curIdentifier p2 in
              expect ASSIGN p2 (\<lambda>p3.
                do { p4 \<leftarrow> nextToken p3;
                     (v, p5) \<leftarrow> pe LOWEST p4;
                     p6 \<leftarrow> skipPeek SEMICOLON p5;
                     Some (Some (ConstantDeclaration tok visibility name v), p6) })))
      in if isVisibility p then expect CONST_T p (rest (Literal (curToken p)))
         else rest ''public'' p)"

definition parsePropertyDeclaration ::
  "(int \<Rightarrow> Expression option parse) \<Rightarrow> string \<Rightarrow> bool \<Rightarrow> PropertyDeclaration option parse"
where
  "parsePropertyDeclaration pe visibility static p =
     (if \<not> curTokenIs VARIABLE p then Some (None, p)
      else
        do { name \<leftarrow> curVariable p;
             let tok = curToken p;
             (v, p1) \<leftarrow>
               (if peekTokenIs ASSIGN p then
                  do { p' \<leftarrow> nextToken p; p'' \<leftarrow> nextToken p'; pe LOWEST p'' }
                else Some (None, p));
             p2 \<leftarrow> skipPeek SEMICOLON p1;
             Some (Some (PropertyDeclaration tok visibility static name v), p2) })"

definition parseMethodDeclaration ::
  "nat \<Rightarrow> BlockStatement parse \<Rightarrow> string \<Rightarrow> bool \<Rightarrow> MethodDeclaration option parse"
where
  "parseMethodDeclaration n pb visibility static p =
     (if \<not> curTokenIs FUNCTION p then Some (None, p)
      else
        let tok = curToken p in
        expect IDENT p (\<lambda>p1.
          let name = curIdentifier p1 in
          expect LPAREN p1 (\<lambda>p2.
            do { (parameters, p3) \<leftarrow> parseFunctionParameters n p2;
                 expect LBRACE p3 (\<lambda>p4.
                   do { (body, p5) \<leftarrow> pb p4;
                        Some (Some (MethodDeclaration tok visibility static name parameters body),
                              p5) }) })))"

fun parseTraitUse_loop :: "nat \<Rightarrow> Identifier list \<Rightarrow> Identifier list parse" where
  "parseTraitUse_loop 0 traits p = None"
| "parseTraitUse_loop (Suc n) traits p =
     (if \<not> curTokenIs SEMICOLON p \<and> \<not> curTokenIs EOF p then
        do { let traits' = (if curTokenIs IDENT p then traits @ [curIdentifier p] else traits);
             p1 \<leftarrow> skipPeek COMMA p;
             p2 \<leftarrow> nextToken p1;
             parseTraitUse_loop n traits' p2 }
      else Some (traits, p))"

definition parseTraitUse :: "nat \<Rightarrow> TraitUse parse" where
  "parseTraitUse n p =
     do { let tok = curToken p;
          p1 \<leftarrow> nextToken p;
          (traits, p2) \<leftarrow> parseTraitUse_loop n [] p1;
          Some (TraitUse tok traits, p2) }"

text \<open>The loop over the names after \<^verbatim>\<open>implements\<close>, with its \<^verbatim>\<open>break\<close>.\<close>

fun parseInterfaces_loop :: "nat \<Rightarrow> Identifier list \<Rightarrow> Identifier list parse" where
  "parseInterfaces_loop 0 interfaces p = None"
| "parseInterfaces_loop (Suc n) interfaces p =
     (if \<not> curTokenIs LBRACE p \<and> \<not> curTokenIs EOF p then
        do { let interfaces' =
               (if curTokenIs IDENT p then interfaces @ [curIdentifier p] else interfaces);
             p1 \<leftarrow> skipPeek COMMA p;
             if peekTokenIs LBRACE p1 then Some (interfaces', p1)
             else do { p2 \<leftarrow> nextToken p1; parseInterfaces_loop n interfaces' p2 } }
      else Some (interfaces, p))"

text \<open>
  The members of a class body collected so far: trait uses, properties, methods and
  constants.
\<close>

type_synonym ClassMembers =
  "TraitUse list \<times> PropertyDeclaration list \<times> MethodDeclaration list \<times> ConstantDeclaration list"

definition setVisibility :: "string \<Rightarrow> ConstantDeclaration \<Rightarrow> ConstantDeclaration" where
  "setVisibility visibility c =
     (case c of ConstantDeclaration tok _ name v \<Rightarrow> ConstantDeclaration tok visibility name v)"

definition parseClassMember ::
  "nat \<Rightarrow> (int \<Rightarrow> Expression option parse) \<Rightarrow> BlockStatement parse \<Rightarrow> ClassMembers
     \<Rightarrow> ClassMembers parse"
where
  "parseClassMember n pe pb members p =
     (case members of (traitUses, properties, methods, constants) \<Rightarrow>
      if curTokenIs USE p then
        do { (traitUse, p1) \<leftarrow> parseTraitUse n p;
             Some ((traitUses @ [traitUse], properties, methods, constants), p1) }
      else
        do { (visibility, p1) \<leftarrow>
               (if isVisibility p then do { p' \<leftarrow> nextToken p; Some (Literal (curToken p), p') }
                else Some (''public'', p));
             (static, p2) \<leftarrow>
               (if curTokenIs STATIC p1 then do { p' \<leftarrow> nextToken p1; Some (True, p') }
                else Some (False, p1));
             if curTokenIs CONST_T p2 then
               do { (r, p3) \<leftarrow> parseConstantDeclaration pe p2;
                    (case r of
                       None \<Rightarrow> Some (members, p3)
                     | Some constant \<Rightarrow>
                         Some ((traitUses, properties, methods,
                                constants @ [setVisibility visibility constant]), p3)) }
             else if curTokenIs FUNCTION p2 then
               do { (r, p3) \<leftarrow> parseMethodDeclaration n pb visibility static p2;
                    (case r of
                       None \<Rightarrow> Some (members, p3)
                     | Some method \<Rightarrow>
                         Some ((traitUses, properties, methods @ [method], constants), p3)) }
             else if curTokenIs VARIABLE p2 then
               do { (r, p3) \<leftarrow> parsePropertyDeclaration pe visibility static p2;
                    (case r of
                       None \<Rightarrow> Some (members, p3)
                     | Some property \<Rightarrow>
                         Some ((traitUses, properties @ [property], methods, constants), p3)) }
             else Some (members, p2) })"

fun parseClassBody_loop ::
  "nat \<Rightarrow> (int \<Rightarrow> Expression option parse) \<Rightarrow> BlockStatement parse \<Rightarrow> ClassMembers
     \<Rightarrow> ClassMembers parse"
where
  "parseClassBody_loop 0 pe pb members p = None"
| "parseClassBody_loop (Suc n) pe pb members p =
     (if \<not> curTokenIs RBRACE p \<and> \<not> curTokenIs EOF p then
        do { (members', p1) \<leftarrow> parseClassMember n pe pb members p;
             p2 \<leftarrow> nextToken p1;
             parseClassBody_loop n pe pb members' p2 }
      else Some (members, p))"

definition parseClassDeclaration ::
  "nat \<Rightarrow> (int \<Rightarrow> Expression option parse) \<Rightarrow> BlockStatement parse \<Rightarrow> Statement option parse"
where
  "parseClassDeclaration n pe pb p =
     (let tok = curToken p in
      expect IDENT p (\<lambda>p1.
        let name = curIdentifier p1 in
        do { (r, p2) \<leftarrow>
               (if peekTokenIs EXTENDS p1 then
                  do { p' \<leftarrow> nextToken p1;
                       expect IDENT p' (\<lambda>p''. Some (Some (Some (curIdentifier p'')), p'')) }
                else Some (Some None, p1));
             (case r of
                None \<Rightarrow> Some (None, p2)
              | Some superClass \<Rightarrow>
                  do { (interfaces, p3) \<leftarrow>
                         (if peekTokenIs IMPLEMENTS p2 then
                            do { p' \<leftarrow> nextToken p2;
                                 p'' \<leftarrow> nextToken p';
                                 parseInterfaces_loop n [] p'' }
                          else Some ([], p2));
                       expect LBRACE p3 (\<lambda>p4.
                         do { p5 \<leftarrow> nextToken p4;
                              ((traitUses, properties, methods, constants), p6) \<leftarrow>
                                parseClassBody_loop n pe pb ([], [], [], []) p5;
                              Some (Some (ClassDeclaration tok name superClass interfaces
                                            traitUses properties methods constants), p6) }) }) }))"

definition parseInterfaceMethod :: "nat \<Rightarrow> InterfaceMethod option parse" where
  "parseInterfaceMethod n p =
     do { let tok = curToken p;
          (visibility, p1) \<leftarrow>
            (if isVisibility p then do { p' \<leftarrow> nextToken p; Some (Literal (curToken p), p') }
             else Some (''public'', p));
          if \<not> curTokenIs FUNCTION p1 then Some (None, p1)
          else
            do { p2 \<leftarrow> nextToken p1;
                 if \<not> curTokenIs IDENT p2 then Some (None, p2)
                 else
                   let name = curIdentifier p2 in
                   expect LPAREN p2 (\<lambda>p3.
                     do { (parameters, p4) \<leftarrow> parseFunctionParameters n p3;
                          p5 \<leftarrow> skipPeek SEMICOLON p4;
                          Some (Some (InterfaceMethod tok visibility name parameters), p5) }) } }"

fun parseInterfaceBody_loop :: "nat \<Rightarrow> InterfaceMethod list \<Rightarrow> InterfaceMethod list parse" where
  "parseInterfaceBody_loop 0 methods p = None"
| "parseInterfaceBody_loop (Suc n) methods p =
     (if \<not> curTokenIs RBRACE p \<and> \<not> curTokenIs EOF p then
        do { (r, p1) \<leftarrow> parseInterfaceMethod n p;
             p2 \<leftarrow> nextToken p1;
             parseInterfaceBody_loop n (case r of None \<Rightarrow> methods | Some m \<Rightarrow> methods @ [m]) p2 }
      else Some (methods, p))"

definition parseInterfaceDeclaration :: "nat \<Rightarrow> Statement option parse" where
  "parseInterfaceDeclaration n p =
     (let tok = curToken p in
      expect IDENT p (\<lambda>p1.
        let name = curIdentifier p1 in
        expect LBRACE p1 (\<lambda>p2.
          do { p3 \<leftarrow> nextToken p2;
               (methods, p4) \<leftarrow> parseInterfaceBody_loop n [] p3;
               Some (Some (InterfaceDeclaration tok name methods), p4) })))"

definition parseTraitMember ::
  "nat \<Rightarrow> (int \<Rightarrow> Expression option parse) \<Rightarrow> BlockStatement parse
     \<Rightarrow> PropertyDeclaration list \<times> MethodDeclaration list
     \<Rightarrow> (PropertyDeclaration list \<times> MethodDeclaration list) parse"
where
  "parseTraitMember n pe pb members p =
     (case members of (properties, methods) \<Rightarrow>
      do { (visibility, static, p1) \<leftarrow>
             (if isVisibility p then
                do { p' \<leftarrow> nextToken p;
                     if curTokenIs STATIC p'
                     then do { p'' \<leftarrow> nextToken p'; Some (Literal (curToken p), True, p'') }
                     else Some (Literal (curToken p), False, p') }
              else if curTokenIs STATIC p then
                do { p' \<leftarrow> nextToken p; Some (''public'', True, p') }
              else Some (''public'', False, p));
           if curTokenIs VARIABLE p1 then
             do { (r, p2) \<leftarrow> parsePropertyDeclaration pe visibility static p1;
                  (case r of
                     None \<Rightarrow> Some (members, p2)
                   | Some property \<Rightarrow> Some ((properties @ [property], methods), p2)) }
           else if curTokenIs FUNCTION p1 then
             do { (r, p2) \<leftarrow> parseMethodDeclaration n pb visibility static p1;
                  (case r of
                     None \<Rightarrow> Some (members, p2)
                   | Some method \<Rightarrow> Some ((properties, methods @ [method]), p2)) }
           else Some (members, p1) })"

fun parseTraitBody_loop ::
  "nat \<Rightarrow> (int \<Rightarrow> Expression option parse) \<Rightarrow> BlockStatement parse
     \<Rightarrow> PropertyDeclaration list \<times> MethodDeclaration list
     \<Rightarrow> (PropertyDeclaration list \<times> MethodDeclaration list) parse"
where
  "parseTraitBody_loop 0 pe pb members p = None"
| "parseTraitBody_loop (Suc n) pe pb members p =
     (if \<not> curTokenIs RBRACE p \<and> \<not> curTokenIs EOF p then
        do { (members', p1) \<leftarrow> parseTraitMember n pe pb members p;
             p2 \<leftarrow> nextToken p1;
             parseTraitBody_loop n pe pb members' p2 }
      else Some (members, p))"

definition parseTraitDeclaration ::
  "nat \<Rightarrow> (int \<Rightarrow> Expression option parse) \<Rightarrow> BlockStatement parse \<Rightarrow> Statement option parse"
where
  "parseTraitDeclaration n pe pb p =
     (let tok = curToken p in
      expect IDENT p (\<lambda>p1.
        let name = curIdentifier p1 in
        expect LBRACE p1 (\<lambda>p2.
          do { p3 \<leftarrow> nextToken p2;
               ((properties, methods), p4) \<leftarrow> parseTraitBody_loop n pe pb ([], []) p3;
               Some (Some (TraitDeclaration tok name properties methods), p4) })))"

definition parseNamespaceDeclaration :: "Statement option parse" where
  "parseNamespaceDeclaration p =
     (let tok = curToken p in
      expect IDENT p (\<lambda>p1.
        do { p2 \<leftarrow> skipPeek SEMICOLON p1;
             Some (Some (NamespaceDeclaration tok (curIdentifier p1)), p2) }))"

definition parseUseStatement :: "Statement option parse" where
  "parseUseStatement p =
     (let tok = curToken p in
      expect IDENT p (\<lambda>p1.
        let namespace = curIdentifier p1 in
        if peekTokenIs AS p1 then
          do { p2 \<leftarrow> nextToken p1;
               expect IDENT p2 (\<lambda>p3.
                 do { p4 \<leftarrow> skipPeek SEMICOLON p3;
                      Some (Some (UseStatement tok namespace (Some (curIdentifier p3))), p4) }) }
        else
          do { p2 \<leftarrow> skipPeek SEMICOLON p1;
               Some (Some (UseStatement tok namespace None), p2) }))"

definition parseCatchClause :: "BlockStatement parse \<Rightarrow> CatchClause option parse" where
  "parseCatchClause pb p =
     (let tok = curToken p in
      expect LPAREN p (\<lambda>p1.
        do { p2 \<leftarrow> nextToken p1;
             (exceptionType, p3) \<leftarrow>
               (if Type (curToken p2) = IDENT
                then do { p' \<leftarrow> nextToken p2; Some (Some (curIdentifier p2), p') }
                else Some (None, p2));
             if Type (curToken p3) \<noteq> VARIABLE then
               Some (None, p3\<lparr> errors := errors p3 @ [''expected variable in catch clause''] \<rparr>)
             else
               do { variable \<leftarrow> curVariable p3;
                    expect RPAREN p3 (\<lambda>p4.
                      expect LBRACE p4 (\<lambda>p5.
                        do { (body, p6) \<leftarrow> pb p5;
                             Some (Some (CatchClause tok exceptionType variable body), p6) })) } }))"

fun parseCatches_loop :: "nat \<Rightarrow> BlockStatement parse \<Rightarrow> CatchClause list \<Rightarrow> CatchClause list parse"
where
  "parseCatches_loop 0 pb catches p = None"
| "parseCatches_loop (Suc n) pb catches p =
     (if peekTokenIs CATCH p then
        do { p1 \<leftarrow> nextToken p;
             (r, p2) \<leftarrow> parseCatchClause pb p1;
             parseCatches_loop n pb (case r of None \<Rightarrow> catches | Some c \<Rightarrow> catches @ [c]) p2 }
      else Some (catches, p))"

definition parseTryStatement :: "nat \<Rightarrow> BlockStatement parse \<Rightarrow> Statement option parse" where
  "parseTryStatement n pb p =
     (let tok = curToken p in
      expect LBRACE p (\<lambda>p1.
        do { (body, p2) \<leftarrow> pb p1;
             (catches, p3) \<leftarrow> parseCatches_loop n pb [] p2;
             (finally_block, p4) \<leftarrow>
               (if peekTokenIs FINALLY p3 then
                  do { p' \<leftarrow> nextToken p3;
                       (ok, p'') \<leftarrow> expectPeek LBRACE p';
                       if ok then do { (b, p''') \<leftarrow> pb p''; Some (Some b, p''') }
                       else Some (None, p'') }
                else Some (None, p3));
             Some (Some (TryStatement tok body catches finally_block), p4) }))"

definition parseThrowStatement :: "(int \<Rightarrow> Expression option parse) \<Rightarrow> Statement parse" where
  "parseThrowStatement pe p =
     do { let tok = curToken p;
          p1 \<leftarrow> nextToken p;
          (e, p2) \<leftarrow> pe LOWEST p1;
          p3 \<leftarrow> skipPeek SEMICOLON p2;
          Some (ThrowStatement tok e, p3) }"

text \<open>
  The conversion of a pointer result to the interface \<^verbatim>\<open>Statement\<close> at the \<^verbatim>\<open>return\<close>
  statements of \<^verbatim>\<open>parseStatement\<close>.
\<close>

definition asStatement :: "string \<Rightarrow> Statement option parse \<Rightarrow> Statement parse" where
  "asStatement typeName f p =
     (case f p of
        None \<Rightarrow> None
      | Some (None, p') \<Rightarrow> Some (NilPointer typeName, p')
      | Some (Some s, p') \<Rightarrow> Some (s, p'))"

definition parseStatement_body ::
  "nat \<Rightarrow> (int \<Rightarrow> Expression option parse) \<Rightarrow> BlockStatement parse \<Rightarrow> Statement parse"
where
  "parseStatement_body n pe pb p =
     (let t = Type (curToken p) in
      if t = FUNCTION then asStatement ''FunctionDeclaration'' (parseFunctionDeclaration n pb) p
      else if t = CLASS then asStatement ''ClassDeclaration'' (parseClassDeclaration n pe pb) p
      else if t = INTERFACE then
        asStatement ''InterfaceDeclaration'' (parseInterfaceDeclaration n) p
      else if t = TRAIT then asStatement ''TraitDeclaration'' (parseTraitDeclaration n pe pb) p
      else if t = CONST_T then
        asStatement ''ConstantDeclaration''
          (\<lambda>p. map_option (\<lambda>(r, p'). (map_option ConstantStatement r, p'))
                 (parseConstantDeclaration pe p)) p
      else if t = NAMESPACE then asStatement ''NamespaceDeclaration'' parseNamespaceDeclaration p
      else if t = USE then asStatement ''UseStatement'' parseUseStatement p
      else if t = TRY then asStatement ''TryStatement'' (parseTryStatement n pb) p
      else if t = THROW then parseThrowStatement pe p
      else if t = RETURN then parseReturnStatement pe p
      else if t = IF then asStatement ''IfStatement'' (parseIfStatement pe pb) p
      else if t = ECHO then parseEchoStatement n pe p
      else if t = FOR then asStatement ''ForStatement'' (parseForStatement pe pb) p
      else if t = WHILE then asStatement ''WhileStatement'' (parseWhileStatement pe pb) p
      else if t = FOREACH then asStatement ''ForeachStatement'' (parseForeachStatement pe pb) p
      else if t = BREAK then parseBreakStatement pe p
      else if t = CONTINUE then parseContinueStatement pe p
      else parseExpressionStatement pe p)"

subsection \<open>The recursion\<close>

text \<open>
  \<open>parseExpression n\<close>, \<open>parseStatement n\<close> and \<open>parseBlockStatement n\<close> follow the Go
  functions through at most \<open>n\<close> nested calls and, in every loop, \<open>n\<close> iterations; beyond
  that they return \<open>None\<close>.
\<close>

fun parseExpression :: "nat \<Rightarrow> int \<Rightarrow> Expression option parse"
  and parseStatement :: "nat \<Rightarrow> Statement parse"
  and parseBlockStatement :: "nat \<Rightarrow> BlockStatement parse"
where
  "parseExpression 0 precedence p = None"
| "parseExpression (Suc n) precedence p =
     parseExpression_body n (parseExpression n) (parseBlockStatement n) precedence p"
| "parseStatement 0 p = None"
| "parseStatement (Suc n) p =
     parseStatement_body n (parseExpression n) (parseBlockStatement n) p"
| "parseBlockStatement 0 p = None"
| "parseBlockStatement (Suc n) p = parseBlockStatement_body n (parseStatement n) p"

text \<open>
  \<^verbatim>\<open>ParseProgram\<close>; as in \<^verbatim>\<open>parseBlockStatement\<close>, the test \<^verbatim>\<open>stmt != nil\<close> always holds.
\<close>

fun ParseProgram_loop :: "nat \<Rightarrow> Statement list \<Rightarrow> Statement list parse" where
  "ParseProgram_loop 0 stmts p = None"
| "ParseProgram_loop (Suc n) stmts p =
     (if \<not> curTokenIs EOF p then
        (if curTokenIs PHP_OPEN p then
           do { p1 \<leftarrow> nextToken p; ParseProgram_loop n stmts p1 }
         else if curTokenIs PHP_CLOSE p then
           do { p1 \<leftarrow> nextToken p; ParseProgram_loop n stmts p1 }
         else
           do { (stmt, p1) \<leftarrow> parseStatement n p;
                p2 \<leftarrow> nextToken p1;
                ParseProgram_loop n (stmts @ [stmt]) p2 })
      else Some (stmts, p))"

definition ParseProgram :: "nat \<Rightarrow> Program parse" where
  "ParseProgram n p =
     do { (stmts, p') \<leftarrow> ParseProgram_loop n [] p;
          Some (\<lparr> Statements = stmts \<rparr>, p') }"

text \<open>Lexing and parsing a source text: the program and the parser's error list.\<close>

definition parse_source :: "nat \<Rightarrow> string \<Rightarrow> (Program \<times> string list) option" where
  "parse_source n src =
     do { p \<leftarrow> NewParser (New src);
          (program, p') \<leftarrow> ParseProgram n p;
          Some (program, errors p') }"

section \<open>The symbol table\<close>

datatype SymbolType =
  CLASS_SYMBOL | FUNCTION_SYMBOL | VARIABLE_SYMBOL | CONSTANT_SYMBOL | INTERFACE_SYMBOL
  | TRAIT_SYMBOL

text \<open>
  The structs of the symbol table.  Fields whose names other records already use carry
  the name of their struct in front.  A symbol and a reference are never changed once
  they are built, so the pointers to them are the values.  Scopes are changed through
  pointers: they live in the list \<open>scopes\<close> of the symbol table, and a \<^verbatim>\<open>*Scope\<close> is an index
  into that list.
\<close>

record Symbol =
  Symbol_Name :: string
  FullyQualified :: string
  Symbol_Type :: SymbolType
  Symbol_Namespace :: string
  File :: string
  Symbol_Line :: nat

record SymbolReference =
  Reference_Name :: string
  ResolvedSymbol :: "Symbol option"
  Reference_Line :: nat
  Reference_Column :: nat

record Scope =
  Scope_Type :: string
  Scope_Name :: string
  Parent :: "nat option"
  Symbols :: "string \<rightharpoonup> Symbol"
  Children :: "nat list"
  Namespace :: string
  Imports :: "string \<rightharpoonup> string"

record SymbolTable =
  scopes :: "Scope list"
  GlobalScope :: nat
  CurrentScope :: nat
  AllSymbols :: "string \<rightharpoonup> Symbol"
  References :: "SymbolReference list"
  Namespaces :: "string \<rightharpoonup> Symbol list"
  ClassHierarchy :: "string \<rightharpoonup> string list"

definition NewSymbolTable :: SymbolTable where
  "NewSymbolTable =
     \<lparr> scopes = [\<lparr> Scope_Type = ''global'', Scope_Name = ''global'', Parent = None,
                    Symbols = Map.empty, Children = [], Namespace = [],
                    Imports = Map.empty \<rparr>],
       GlobalScope = 0, CurrentScope = 0, AllSymbols = Map.empty, References = [],
       Namespaces = Map.empty, ClassHierarchy = Map.empty \<rparr>"

text \<open>\<^verbatim>\<open>st.CurrentScope\<close> read, and a field of it written.\<close>

definition currentScope :: "SymbolTable \<Rightarrow> Scope" where
  "currentScope st = scopes st ! CurrentScope st"

definition updateCurrentScope :: "(Scope \<Rightarrow> Scope) \<Rightarrow> SymbolTable \<Rightarrow> SymbolTable" where
  "updateCurrentScope f st =
     st\<lparr> scopes := (scopes st)[CurrentScope st := f (currentScope st)] \<rparr>"

definition EnterScope :: "string \<Rightarrow> string \<Rightarrow> SymbolTable \<Rightarrow> SymbolTable" where
  "EnterScope scopeType name st =
     (let newScope = \<lparr> Scope_Type = scopeType, Scope_Name = name,
                        Parent = Some (CurrentScope st), Symbols = Map.empty, Children = [],
                        Namespace = Namespace (currentScope st),
                        Imports = Imports (currentScope st) \<rparr>;
          a = length (scopes st);
          st1 = updateCurrentScope (\<lambda>s. s\<lparr> Children := Children s @ [a] \<rparr>) st
      in st1\<lparr> scopes := scopes st1 @ [newScope], CurrentScope := a \<rparr>)"

definition ExitScope :: "SymbolTable \<Rightarrow> SymbolTable" where
  "ExitScope st =
     (case Parent (currentScope st) of
        Some parent \<Rightarrow> st\<lparr> CurrentScope := parent \<rparr>
      | None \<Rightarrow> st)"

definition SetNamespace :: "string \<Rightarrow> SymbolTable \<Rightarrow> SymbolTable" where
  "SetNamespace namespace st = updateCurrentScope (\<lambda>s. s\<lparr> Namespace := namespace \<rparr>) st"

definition AddImport :: "string \<Rightarrow> string \<Rightarrow> SymbolTable \<Rightarrow> SymbolTable" where
  "AddImport fullyQualified alias st =
     (let alias' = (if alias = [] then last (split_on backslash fullyQualified) else alias)
      in updateCurrentScope (\<lambda>s. s\<lparr> Imports := (Imports s)(alias' \<mapsto> fullyQualified) \<rparr>) st)"

definition makeFullyQualified :: "string \<Rightarrow> SymbolTable \<Rightarrow> string" where
  "makeFullyQualified name st =
     (if HasPrefix name [backslash] then name
      else if Namespace (currentScope st) = [] then name
      else Namespace (currentScope st) @ [backslash] @ name)"

definition DeclareSymbol ::
  "string \<Rightarrow> SymbolType \<Rightarrow> string \<Rightarrow> nat \<Rightarrow> SymbolTable \<Rightarrow> Symbol \<times> SymbolTable"
where
  "DeclareSymbol name symbolType file ln st =
     (let fqn = makeFullyQualified name st;
          symbol = \<lparr> Symbol_Name = name, FullyQualified = fqn, Symbol_Type = symbolType,
                     Symbol_Namespace = Namespace (currentScope st), File = file,
                     Symbol_Line = ln \<rparr>;
          st1 = updateCurrentScope (\<lambda>s. s\<lparr> Symbols := (Symbols s)(name \<mapsto> symbol) \<rparr>) st;
          st2 = st1\<lparr> AllSymbols := (AllSymbols st1)(fqn \<mapsto> symbol) \<rparr>;
          registered =
            (case Namespaces st2 (Symbol_Namespace symbol) of None \<Rightarrow> [] | Some syms \<Rightarrow> syms)
      in (symbol,
          st2\<lparr> Namespaces :=
                 (Namespaces st2)(Symbol_Namespace symbol \<mapsto> registered @ [symbol]) \<rparr>))"

text \<open>
  The test \<^verbatim>\<open>if symbol, exists := m[name]; exists && symbol.Type == symbolType\<close> that every
  step of \<^verbatim>\<open>ResolveSymbol\<close> makes.
\<close>

definition lookupTyped :: "(string \<rightharpoonup> Symbol) \<Rightarrow> string \<Rightarrow> SymbolType \<Rightarrow> Symbol option" where
  "lookupTyped m name symbolType =
     (case m name of
        Some symbol \<Rightarrow> if Symbol_Type symbol = symbolType then Some symbol else None
      | None \<Rightarrow> None)"

text \<open>
  The loop \<^verbatim>\<open>for scope != nil { ...; scope = scope.Parent }\<close> of \<^verbatim>\<open>ResolveSymbol\<close>.
  \<^verbatim>\<open>EnterScope\<close> is the only place that sets \<^verbatim>\<open>Parent\<close>, to a scope that exists already, so
  the parent of a scope has a smaller index; \<open>parentOf\<close> reads \<^verbatim>\<open>scope.Parent\<close> in a store of
  that shape, which is what makes the loop end.
\<close>

definition parentOf :: "Scope list \<Rightarrow> nat \<Rightarrow> nat option" where
  "parentOf h a =
     (case Parent (h ! a) of
        Some parent \<Rightarrow> if parent < a then Some parent else None
      | None \<Rightarrow> None)"

function lookupScopes ::
  "Scope list \<Rightarrow> string \<Rightarrow> SymbolType \<Rightarrow> nat option \<Rightarrow> Symbol option"
where
  "lookupScopes h name symbolType None = None"
| "lookupScopes h name symbolType (Some a) =
     (case lookupTyped (Symbols (h ! a)) name symbolType of
        Some symbol \<Rightarrow> Some symbol
      | None \<Rightarrow> lookupScopes h name symbolType (parentOf h a))"
  by pat_completeness auto
termination
  by (relation "measure (\<lambda>(h, name, symbolType, scope). case scope of None \<Rightarrow> 0 | Some a \<Rightarrow> Suc a)")
     (auto simp: parentOf_def split: option.splits if_splits)

declare lookupScopes.simps [simp del]

definition ResolveSymbol :: "string \<Rightarrow> SymbolType \<Rightarrow> SymbolTable \<Rightarrow> Symbol option" where
  "ResolveSymbol name symbolType st =
     (if HasPrefix name [backslash] then lookupTyped (AllSymbols st) name symbolType
      else
        (case (case Imports (currentScope st) name of
                 Some fqn \<Rightarrow> lookupTyped (AllSymbols st) fqn symbolType
               | None \<Rightarrow> None) of
           Some symbol \<Rightarrow> Some symbol
         | None \<Rightarrow>
            (case lookupScopes (scopes st) name symbolType (Some (CurrentScope st)) of
               Some symbol \<Rightarrow> Some symbol
             | None \<Rightarrow>
                (case (if Namespace (currentScope st) \<noteq> []
                       then lookupTyped (AllSymbols st)
                              (Namespace (currentScope st) @ [backslash] @ name) symbolType
                       else None) of
                   Some symbol \<Rightarrow> Some symbol
                 | None \<Rightarrow> lookupTyped (AllSymbols st) name symbolType))))"

definition AddReference ::
  "string \<Rightarrow> SymbolType \<Rightarrow> nat \<Rightarrow> nat \<Rightarrow> SymbolTable \<Rightarrow> SymbolReference \<times> SymbolTable"
where
  "AddReference name symbolType ln col st =
     (let ref = \<lparr> Reference_Name = name, ResolvedSymbol = ResolveSymbol name symbolType st,
                  Reference_Line = ln, Reference_Column = col \<rparr>
      in (ref, st\<lparr> References := References st @ [ref] \<rparr>))"

definition AddClassHierarchy ::
  "string \<Rightarrow> string \<Rightarrow> string list \<Rightarrow> SymbolTable \<Rightarrow> SymbolTable"
where
  "AddClassHierarchy className extends implements st =
     st\<lparr> ClassHierarchy :=
           (ClassHierarchy st)(className \<mapsto> (if extends \<noteq> [] then [extends] else []) @ implements) \<rparr>"

definition GetUnresolvedReferences :: "SymbolTable \<Rightarrow> SymbolReference list" where
  "GetUnresolvedReferences st = filter (\<lambda>ref. ResolvedSymbol ref = None) (References st)"

section \<open>The semantic analyzer\<close>

record SemanticAnalyzer =
  SymbolTable :: SymbolTable
  CurrentFile :: string
  Errors :: "string list"

definition NewSemanticAnalyzer :: SemanticAnalyzer where
  "NewSemanticAnalyzer = \<lparr> SymbolTable = NewSymbolTable, CurrentFile = [], Errors = [] \<rparr>"

text \<open>
  A visit method changes the analyzer, or panics on a nil pointer (\<open>None\<close>).  \<open>steps\<close> runs
  statements one after the other, \<open>visitNilable\<close> is a visit of an interface value that may
  be nil (no case of the type switch matches nil), and the three functions after it are
  the calls of the symbol table whose result the caller drops.
\<close>

type_synonym visit = "SemanticAnalyzer \<Rightarrow> SemanticAnalyzer option"

fun steps :: "visit list \<Rightarrow> visit" where
  "steps [] sa = Some sa"
| "steps (v # vs) sa = (case v sa of None \<Rightarrow> None | Some sa' \<Rightarrow> steps vs sa')"

definition visitNilable :: "visit option \<Rightarrow> visit" where
  "visitNilable v sa = (case v of None \<Rightarrow> Some sa | Some f \<Rightarrow> f sa)"

definition onSymbolTable :: "(SymbolTable \<Rightarrow> SymbolTable) \<Rightarrow> visit" where
  "onSymbolTable f sa = Some (sa\<lparr> SymbolTable := f (SymbolTable sa) \<rparr>)"

definition declareStep :: "string \<Rightarrow> SymbolType \<Rightarrow> nat \<Rightarrow> visit" where
  "declareStep name symbolType ln sa =
     onSymbolTable (\<lambda>st. snd (DeclareSymbol name symbolType (CurrentFile sa) ln st)) sa"

definition referenceStep :: "string \<Rightarrow> SymbolType \<Rightarrow> nat \<Rightarrow> nat \<Rightarrow> visit" where
  "referenceStep name symbolType ln col =
     onSymbolTable (\<lambda>st. snd (AddReference name symbolType ln col st))"

fun Identifier_Value :: "Identifier \<Rightarrow> string" where
  "Identifier_Value (Identifier tok v) = v"

fun Identifier_Token :: "Identifier \<Rightarrow> Token" where
  "Identifier_Token (Identifier tok v) = tok"

fun Variable_Name :: "Variable \<Rightarrow> string" where
  "Variable_Name (Variable tok name) = name"

fun Variable_Token :: "Variable \<Rightarrow> Token" where
  "Variable_Token (Variable tok name) = tok"

text \<open>The type assertion \<^verbatim>\<open>expr.(*Identifier)\<close>.\<close>

fun asIdentifier :: "Expression option \<Rightarrow> Identifier option" where
  "asIdentifier (Some (IdentifierExpr identifier)) = Some identifier"
| "asIdentifier _ = None"

definition declareParameters :: "Variable list \<Rightarrow> visit" where
  "declareParameters parameters =
     steps (map (\<lambda>param. declareStep (Variable_Name param) VARIABLE_SYMBOL
                            (Line (Variable_Token param))) parameters)"

definition addIdentifierReference :: "Identifier \<Rightarrow> visit" where
  "addIdentifierReference identifier sa =
     (let (ref, st) = AddReference (Identifier_Value identifier) FUNCTION_SYMBOL
                        (Line (Identifier_Token identifier)) 0 (SymbolTable sa);
          sa1 = sa\<lparr> SymbolTable := st \<rparr>
      in if ResolvedSymbol ref = None then
           referenceStep (Identifier_Value identifier) CONSTANT_SYMBOL
             (Line (Identifier_Token identifier)) 0 sa1
         else Some sa1)"

fun visitInterfaceMethod :: "InterfaceMethod \<Rightarrow> visit" where
  "visitInterfaceMethod (InterfaceMethod tok visibility name parameters) =
     declareStep (Identifier_Value name) FUNCTION_SYMBOL (Line tok)"

text \<open>
  The type switch of \<^verbatim>\<open>visitStatement\<close> on a nil pointer of a struct type: the case of
  that type is taken and its visit method reads a field of the nil pointer; a type
  without a case is skipped.
\<close>

definition visitNilPointer :: "string \<Rightarrow> visit" where
  "visitNilPointer typeName sa =
     (if typeName \<in> set [''NamespaceDeclaration'', ''UseStatement'', ''ClassDeclaration'',
                          ''InterfaceDeclaration'', ''TraitDeclaration'', ''FunctionDeclaration'',
                          ''ExpressionStatement'', ''BlockStatement'', ''IfStatement'',
                          ''ForStatement'', ''WhileStatement'', ''ForeachStatement'',
                          ''ReturnStatement'', ''EchoStatement'', ''TryStatement'',
                          ''ThrowStatement'']
      then None else Some sa)"

primrec visitExpression :: "Expression \<Rightarrow> visit"
  and visitStatement :: "Statement \<Rightarrow> visit"
  and visitBlockStatement :: "BlockStatement \<Rightarrow> visit"
  and visitPropertyDeclaration :: "PropertyDeclaration \<Rightarrow> visit"
  and visitMethodDeclaration :: "MethodDeclaration \<Rightarrow> visit"
  and visitConstantDeclaration :: "ConstantDeclaration \<Rightarrow> visit"
  and visitCatchClause :: "CatchClause \<Rightarrow> visit"
where
  "visitExpression (IdentifierExpr identifier) = addIdentifierReference identifier"
| "visitExpression (VariableExpr v) = Some"
| "visitExpression (IntegerLiteral tok i) = Some"
| "visitExpression (FloatLiteral tok) = Some"
| "visitExpression (StringLiteral tok s) = Some"
| "visitExpression (BooleanLiteral tok b) = Some"
| "visitExpression (InterpolatedString tok parts) = Some"
| "visitExpression (PrefixExpression tok operator right) =
     visitNilable (map_option visitExpression right)"
| "visitExpression (InfixExpression tok left operator right) =
     steps [visitNilable (map_option visitExpression left),
            visitNilable (map_option visitExpression right)]"
| "visitExpression (PostfixExpression tok left operator) =
     visitNilable (map_option visitExpression left)"
| "visitExpression (AssignmentExpression tok name val) =
     steps [declareStep (Variable_Name name) VARIABLE_SYMBOL (Line tok),
            visitNilable (map_option visitExpression val)]"
| "visitExpression (TernaryExpression tok condition trueValue falseValue) =
     steps [visitNilable (map_option visitExpression condition),
            visitNilable (map_option visitExpression trueValue),
            visitNilable (map_option visitExpression falseValue)]"
| "visitExpression (CallExpression tok fn arguments) =
     steps [(case asIdentifier fn of
               Some identifier \<Rightarrow>
                 referenceStep (Identifier_Value identifier) FUNCTION_SYMBOL (Line tok) 0
             | None \<Rightarrow> visitNilable (map_option visitExpression fn)),
            steps (map visitNilable (map (map_option visitExpression) arguments))]"
| "visitExpression (IndexExpression tok left index) =
     steps [visitNilable (map_option visitExpression left),
            visitNilable (map_option visitExpression index)]"
| "visitExpression (ArrayLiteral tok elements) =
     steps (map visitNilable (map (map_option visitExpression) elements))"
| "visitExpression (AssociativeArrayLiteral tok pairs) =
     steps (map (\<lambda>pair. steps [visitNilable (fst pair), visitNilable (snd pair)])
              (map (map_prod (map_option visitExpression) (map_option visitExpression)) pairs))"
| "visitExpression (NewExpression tok className arguments) =
     steps [referenceStep (Identifier_Value className) CLASS_SYMBOL (Line tok) 0,
            steps (map visitNilable (map (map_option visitExpression) arguments))]"
| "visitExpression (ObjectAccessExpression tok object property) =
     steps [visitNilable (map_option visitExpression object),
            visitNilable (map_option visitExpression property)]"
| "visitExpression (StaticAccessExpression tok cls property) =
     steps [(case asIdentifier cls of
               Some identifier \<Rightarrow>
                 referenceStep (Identifier_Value identifier) CLASS_SYMBOL (Line tok) 0
             | None \<Rightarrow> visitNilable (map_option visitExpression cls)),
            visitNilable (map_option visitExpression property)]"
| "visitExpression (AnonymousFunction tok parameters useClause body) =
     steps [onSymbolTable (EnterScope ''function'' ''anonymous''),
            declareParameters parameters,
            steps (map (\<lambda>useVar. referenceStep (Variable_Name useVar) VARIABLE_SYMBOL
                                    (Line (Variable_Token useVar)) 0) useClause),
            visitBlockStatement body,
            onSymbolTable ExitScope]"
| "visitExpression (YieldExpression tok key val) =
     steps [visitNilable (map_option visitExpression key),
            visitNilable (map_option visitExpression val)]"
| "visitStatement (ExpressionStatement tok expression) =
     visitNilable (map_option visitExpression expression)"
| "visitStatement (FunctionDeclaration tok name parameters body) =
     steps [declareStep (Identifier_Value name) FUNCTION_SYMBOL (Line tok),
            onSymbolTable (EnterScope ''function'' (Identifier_Value name)),
            declareParameters parameters,
            visitBlockStatement body,
            onSymbolTable ExitScope]"
| "visitStatement (ClassDeclaration tok name superClass interfaces traitUses properties
      methods constants) =
     steps [(\<lambda>sa.
               let (symbol, st) = DeclareSymbol (Identifier_Value name) CLASS_SYMBOL
                                    (CurrentFile sa) (Line tok) (SymbolTable sa)
               in Some (sa\<lparr> SymbolTable :=
                    AddClassHierarchy (FullyQualified symbol)
                      (case superClass of None \<Rightarrow> [] | Some super \<Rightarrow> Identifier_Value super)
                      (map Identifier_Value interfaces) st \<rparr>)),
            onSymbolTable (EnterScope ''class'' (Identifier_Value name)),
            steps (map visitConstantDeclaration constants),
            steps (map visitPropertyDeclaration properties),
            steps (map visitMethodDeclaration methods),
            onSymbolTable ExitScope]"
| "visitStatement (InterfaceDeclaration tok name methods) =
     steps [declareStep (Identifier_Value name) INTERFACE_SYMBOL (Line tok),
            onSymbolTable (EnterScope ''interface'' (Identifier_Value name)),
            steps (map visitInterfaceMethod methods),
            onSymbolTable ExitScope]"
| "visitStatement (TraitDeclaration tok name properties methods) =
     steps [declareStep (Identifier_Value name) TRAIT_SYMBOL (Line tok),
            onSymbolTable (EnterScope ''trait'' (Identifier_Value name)),
            steps (map visitPropertyDeclaration properties),
            steps (map visitMethodDeclaration methods),
            onSymbolTable ExitScope]"
| "visitStatement (ConstantStatement constant) = Some"
| "visitStatement (NamespaceDeclaration tok name) =
     onSymbolTable (SetNamespace (Identifier_Value name))"
| "visitStatement (UseStatement tok namespace alias) =
     onSymbolTable
       (AddImport (Identifier_Value namespace)
          (case alias of None \<Rightarrow> [] | Some a \<Rightarrow> Identifier_Value a))"
| "visitStatement (TryStatement tok body catches finally_block) =
     steps [visitBlockStatement body,
            steps (map visitCatchClause catches),
            visitNilable (map_option visitBlockStatement finally_block)]"
| "visitStatement (ThrowStatement tok expression) =
     visitNilable (map_option visitExpression expression)"
| "visitStatement (ReturnStatement tok returnValue) =
     visitNilable (map_option visitExpression returnValue)"
| "visitStatement (IfStatement tok condition consequence alternative) =
     steps [visitNilable (map_option visitExpression condition),
            visitBlockStatement consequence,
            visitNilable (map_option visitBlockStatement alternative)]"
| "visitStatement (EchoStatement tok vals) =
     steps (map visitNilable (map (map_option visitExpression) vals))"
| "visitStatement (ForStatement tok init condition update body) =
     steps [visitNilable (map_option visitExpression init),
            visitNilable (map_option visitExpression condition),
            visitNilable (map_option visitExpression update),
            visitBlockStatement body]"
| "visitStatement (WhileStatement tok condition body) =
     steps [visitNilable (map_option visitExpression condition),
            visitBlockStatement body]"
| "visitStatement (ForeachStatement tok array key val body) =
     steps [visitNilable (map_option visitExpression array),
            (case key of
               None \<Rightarrow> Some
             | Some k \<Rightarrow> declareStep (Variable_Name k) VARIABLE_SYMBOL (Line tok)),
            declareStep (Variable_Name val) VARIABLE_SYMBOL (Line tok),
            visitBlockStatement body]"
| "visitStatement (BreakStatement tok level) = Some"
| "visitStatement (ContinueStatement tok level) = Some"
| "visitStatement (NilPointer typeName) = visitNilPointer typeName"
| "visitBlockStatement (BlockStatement tok statements) =
     steps (map visitStatement statements)"
| "visitPropertyDeclaration (PropertyDeclaration tok visibility static name val) =
     steps [declareStep (Variable_Name name) VARIABLE_SYMBOL (Line tok),
            visitNilable (map_option visitExpression val)]"
| "visitMethodDeclaration (MethodDeclaration tok visibility static name parameters body) =
     steps [declareStep (Identifier_Value name) FUNCTION_SYMBOL (Line tok),
            onSymbolTable (EnterScope ''method'' (Identifier_Value name)),
            declareParameters parameters,
            visitBlockStatement body,
            onSymbolTable ExitScope]"
| "visitConstantDeclaration (ConstantDeclaration tok visibility name val) =
     steps [declareStep (Identifier_Value name) CONSTANT_SYMBOL (Line tok),
            visitNilable (map_option visitExpression val)]"
| "visitCatchClause (CatchClause tok exceptionType variable body) =
     steps [(case exceptionType of
               None \<Rightarrow> Some
             | Some t \<Rightarrow> referenceStep (Identifier_Value t) CLASS_SYMBOL (Line tok) 0),
            declareStep (Variable_Name variable) VARIABLE_SYMBOL (Line tok),
            visitBlockStatement body]"

definition visitProgram :: "Program \<Rightarrow> visit" where
  "visitProgram program = steps (map visitStatement (Statements program))"

definition AnalyzeProgram :: "Program \<Rightarrow> string \<Rightarrow> visit" where
  "AnalyzeProgram program filename sa = visitProgram program (sa\<lparr> CurrentFile := filename \<rparr>)"

definition ValidateReferences :: "SemanticAnalyzer \<Rightarrow> SemanticAnalyzer" where
  "ValidateReferences sa =
     sa\<lparr> Errors := Errors sa @
           map (\<lambda>ref. ''Undefined symbol '' @ [squote] @ Reference_Name ref @ [squote]
                        @ '' at line '' @ show_nat (Reference_Line ref))
             (GetUnresolvedReferences (SymbolTable sa)) \<rparr>"

text \<open>\<^verbatim>\<open>strings.Join\<close>.\<close>

fun Join :: "string list \<Rightarrow> string \<Rightarrow> string" where
  "Join [] sep = []"
| "Join [s] sep = s"
| "Join (s # t # ss) sep = s @ sep @ Join (t # ss) sep"

text \<open>
  \<^verbatim>\<open>ParseWithSemantics\<close>: the error of a program with parser errors, or the analyzer after
  the analysis of the program.
\<close>

definition ParseWithSemantics ::
  "nat \<Rightarrow> string \<Rightarrow> string \<Rightarrow> (string + Program \<times> SemanticAnalyzer) option"
where
  "ParseWithSemantics n inp filename =
     (case parse_source n inp of
        None \<Rightarrow> None
      | Some (program, errs) \<Rightarrow>
          if length errs > 0 then Some (Inl (''parsing errors: '' @ Join errs ''; ''))
          else (case AnalyzeProgram program filename NewSemanticAnalyzer of
                  None \<Rightarrow> None
                | Some sa \<Rightarrow> Some (Inr (program, ValidateReferences sa))))"

section \<open>Definitions for the statements of the properties\<close>

text \<open>The value of a digit string read in base 8, and the digits of base 8.\<close>

definition octal_value :: "string \<Rightarrow> nat" where
  "octal_value ds = foldl (\<lambda>n c. n * 8 + (of_char c - 48)) 0 ds"

definition isOctalDigit :: "char \<Rightarrow> bool" where
  "isOctalDigit c \<longleftrightarrow> (let n = (of_char c :: nat) in 48 \<le> n \<and> n \<le> 55)"

text \<open>
  The token loop of \<^verbatim>\<open>DebugParsePHP\<close>: the tokens of an input up to and including the
  first \<^verbatim>\<open>EOF\<close> token, in at most \<open>n\<close> calls of \<^verbatim>\<open>NextToken\<close>.
\<close>

fun collectTokens :: "nat \<Rightarrow> Lexer \<Rightarrow> Token list \<Rightarrow> Token list option" where
  "collectTokens 0 l toks = None"
| "collectTokens (Suc n) l toks =
     (case NextToken l of
        None \<Rightarrow> None
      | Some (tok, l') \<Rightarrow>
          if Type tok = EOF then Some (toks @ [tok]) else collectTokens n l' (toks @ [tok]))"

text \<open>
  The state of a lexer between two calls of \<^verbatim>\<open>readChar\<close>: \<^verbatim>\<open>readPosition\<close> is one past
  \<^verbatim>\<open>position\<close>, and \<^verbatim>\<open>ch\<close> is the byte at \<^verbatim>\<open>position\<close>, or 0 past the end.  \<open>rest\<close> is the
  input from the current byte on.
\<close>

definition firstByte :: "string \<Rightarrow> char" where
  "firstByte s = (case s of [] \<Rightarrow> NUL | c # _ \<Rightarrow> c)"

definition rest :: "Lexer \<Rightarrow> string" where
  "rest l = drop (position l) (input l)"

definition lexer_inv :: "Lexer \<Rightarrow> bool" where
  "lexer_inv l \<longleftrightarrow> readPosition l = position l + 1 \<and> ch l = firstByte (rest l)"




text \<open>The lexer has read its whole input.\<close>

definition atEnd :: "Lexer \<Rightarrow> bool" where
  "atEnd l \<longleftrightarrow> ch l = NUL \<and> length (input l) \<le> readPosition l"

text \<open>The result of the call of \<^verbatim>\<open>NextToken\<close> that follows \<open>k\<close> earlier calls.\<close>

fun NextToken_after :: "nat \<Rightarrow> Lexer \<Rightarrow> (Token \<times> Lexer) option" where
  "NextToken_after 0 l = NextToken l"
| "NextToken_after (Suc k) l =
     (case NextToken l of None \<Rightarrow> None | Some (tok, l') \<Rightarrow> NextToken_after k l')"

text \<open>
  The input of scenario D, and the analysis of the program that the parser returns for an
  input, with or without parser errors.
\<close>

definition scenario_D :: string where
  "scenario_D =
     ''<?php namespace Payroll; use HR'' @ [backslash]
       @ ''User; class Payroll {} new User(); ?>''"

definition analyze_source :: "nat \<Rightarrow> string \<Rightarrow> string \<Rightarrow> SemanticAnalyzer option" where
  "analyze_source n inp filename =
     (case parse_source n inp of
        None \<Rightarrow> None
      | Some (program, errs) \<Rightarrow> AnalyzeProgram program filename NewSemanticAnalyzer)"

text \<open>
  The symbol table after the declarations \<^verbatim>\<open>namespace HR; class User\<close>,
  \<^verbatim>\<open>namespace Payroll; class User\<close> and the import of \<^verbatim>\<open>HR\User\<close> without alias.
\<close>

definition two_User_classes :: SymbolTable where
  "two_User_classes =
     AddImport (''HR'' @ [backslash] @ ''User'') []
       (snd (DeclareSymbol ''User'' CLASS_SYMBOL ''payroll.php'' 3
          (SetNamespace ''Payroll''
             (snd (DeclareSymbol ''User'' CLASS_SYMBOL ''payroll.php'' 2
                (SetNamespace ''HR'' NewSymbolTable))))))"

section \<open>Evaluation rules\<close>

text \<open>
  Rules for running the lexer and the parser on a concrete input with the simplifier.
  The congruence rules keep the simplifier out of the continuation of a monadic bind
  until its argument is known; the recursive lexer functions and \<open>nextToken\<close> are
  unfolded on explicit records only.
\<close>

lemma bind_weak_cong: "m = m' \<Longrightarrow> Option.bind m f = Option.bind m' f"
  by simp

lemma expect_weak_cong: "expect t p k = expect t p k"
  by simp

lemma Lexer_inst:
  "(\<And>l. f l = g l) \<Longrightarrow>
   f \<lparr>input = i, position = a, readPosition = b, ch = c, line = d, column = e\<rparr> =
   g \<lparr>input = i, position = a, readPosition = b, ch = c, line = d, column = e\<rparr>"
  by simp

lemma Parser_inst:
  "(\<And>p. f p = g p) \<Longrightarrow>
   f \<lparr>lexer = l, curToken = c, peekToken = k, errors = e\<rparr> =
   g \<lparr>lexer = l, curToken = c, peekToken = k, errors = e\<rparr>"
  by simp

lemmas NextToken_eval = Lexer_inst [of NextToken, OF NextToken.simps]
lemmas skipWhitespace_eval = Lexer_inst [of skipWhitespace, OF skipWhitespace.simps]
lemmas readIdentifier_loop_eval = Lexer_inst [of readIdentifier_loop, OF readIdentifier_loop.simps]
lemmas readDigits_eval = Lexer_inst [of readDigits, OF readDigits.simps]
lemmas readString_loop_eval =
  Lexer_inst [of "readString_loop delimiter", OF readString_loop.simps] for delimiter
lemmas skipLine_eval = Lexer_inst [of skipLine, OF skipLine.simps]
lemmas skipBlock_eval = Lexer_inst [of skipBlock, OF skipBlock.simps]
lemmas nextToken_eval = Parser_inst [of nextToken, OF nextToken_def]

lemmas lexer_eval =
  NextToken_eval skipWhitespace_eval readIdentifier_loop_eval readDigits_eval
  readString_loop_eval skipLine_eval skipBlock_eval skipComment_def
  New_def readChar_def peekChar_def peekCharAt_def isSpace_def isLetter_def isDigit_def
  NUL_def newline_def backslash_def dquote_def squote_def advance_def twoCharToken_def
  newToken_def readIdentifier_def readNumber_def readString_def go_slice_def
  LookupIdent_def keywords_table_def TokenType_defs Let_def

text \<open>The recursion budget as a numeral.\<close>

lemmas fuel_numeral =
  collectTokens.simps(2) [of "pred_numeral k", folded numeral_eq_Suc]
  collectTokens.simps(2) [of 0, folded One_nat_def]
  parseFunctionParameters_loop.simps(2) [of "pred_numeral k", folded numeral_eq_Suc]
  parseFunctionParameters_loop.simps(2) [of 0, folded One_nat_def]
  parseExpressionList_loop.simps(2) [of "pred_numeral k", folded numeral_eq_Suc]
  parseExpressionList_loop.simps(2) [of 0, folded One_nat_def]
  parseArrayPairs_loop.simps(2) [of "pred_numeral k", folded numeral_eq_Suc]
  parseArrayPairs_loop.simps(2) [of 0, folded One_nat_def]
  parseUseClause_loop.simps(2) [of "pred_numeral k", folded numeral_eq_Suc]
  parseUseClause_loop.simps(2) [of 0, folded One_nat_def]
  parseExpression_loop.simps(2) [of "pred_numeral k", folded numeral_eq_Suc]
  parseExpression_loop.simps(2) [of 0, folded One_nat_def]
  parseBlockStatement_loop.simps(2) [of "pred_numeral k", folded numeral_eq_Suc]
  parseBlockStatement_loop.simps(2) [of 0, folded One_nat_def]
  parseTraitUse_loop.simps(2) [of "pred_numeral k", folded numeral_eq_Suc]
  parseTraitUse_loop.simps(2) [of 0, folded One_nat_def]
  parseInterfaces_loop.simps(2) [of "pred_numeral k", folded numeral_eq_Suc]
  parseInterfaces_loop.simps(2) [of 0, folded One_nat_def]
  parseClassBody_loop.simps(2) [of "pred_numeral k", folded numeral_eq_Suc]
  parseClassBody_loop.simps(2) [of 0, folded One_nat_def]
  parseInterfaceBody_loop.simps(2) [of "pred_numeral k", folded numeral_eq_Suc]
  parseInterfaceBody_loop.simps(2) [of 0, folded One_nat_def]
  parseTraitBody_loop.simps(2) [of "pred_numeral k", folded numeral_eq_Suc]
  parseTraitBody_loop.simps(2) [of 0, folded One_nat_def]
  parseCatches_loop.simps(2) [of "pred_numeral k", folded numeral_eq_Suc]
  parseCatches_loop.simps(2) [of 0, folded One_nat_def]
  ParseProgram_loop.simps(2) [of "pred_numeral k", folded numeral_eq_Suc]
  ParseProgram_loop.simps(2) [of 0, folded One_nat_def]
  parseExpression.simps(2) [of "pred_numeral k", folded numeral_eq_Suc]
  parseExpression.simps(2) [of 0, folded One_nat_def]
  parseStatement.simps(2) [of "pred_numeral k", folded numeral_eq_Suc]
  parseStatement.simps(2) [of 0, folded One_nat_def]
  parseBlockStatement.simps(2) [of "pred_numeral k", folded numeral_eq_Suc]
  parseBlockStatement.simps(2) [of 0, folded One_nat_def]
  for k

lemmas parser_eval =
  fuel_numeral nextToken_eval precedence_defs
  TokenType_String_def TokenType_names_def show_int_def show_nat.simps
  ParseInt_def ParseUint_def digit_value_def lower_def underscoreOK_def go_quote_def
  ParseFloat_ok_def decimal_value_def char_of_eq_iff
  precedences_def zeroToken_def NewParser_def curTokenIs_def
  peekTokenIs_def peekError_def expectPeek_def noPrefixParseFnError_def
  peekPrecedence_def curPrecedence_def skipPeek_def curVariable_def
  curIdentifier_def parseIdentifier_def parseVariable_def parseIntegerLiteral_def
  parseFloatLiteral_def interpolatedPart_def parseInterpolatedString_def parseStringLiteral_def
  parseBooleanLiteral_def parsePostfixExpression_def parseFunctionParameters_def expect_def
  parsePrefixExpression_def parseInfixExpression_def parseAssignmentExpression_def parseAssignmentExpressionFromVariable_def
  parseGroupedExpression_def parseExpressionList_def parseCallExpression_def parseArrayLiteral_def
  parseIndexExpression_def parseNewExpression_def parseObjectAccessExpression_def parseStaticAccessExpression_def
  parseTernaryExpression_def parseYieldExpression_def parseAnonymousFunction_def prefixParseFns_def
  infixParseFns_def parseExpression_body_def parseExpressionStatement_def parseFunctionDeclaration_def
  parseBlockStatement_body_def parseReturnStatement_def parseIfStatement_def parseEchoStatement_def
  parseForInit_def parseForUpdate_def parseForStatement_def parseWhileStatement_def
  parseForeachKey_def parseForeachStatement_def parseBreakStatement_def parseContinueStatement_def
  isVisibility_def parseConstantDeclaration_def parsePropertyDeclaration_def parseMethodDeclaration_def
  parseTraitUse_def setVisibility_def parseClassMember_def parseClassDeclaration_def
  parseInterfaceMethod_def parseInterfaceDeclaration_def parseTraitMember_def parseTraitDeclaration_def
  parseNamespaceDeclaration_def parseUseStatement_def parseCatchClause_def parseTryStatement_def
  parseThrowStatement_def asStatement_def parseStatement_body_def ParseProgram_def
  parse_source_def

section \<open>Integer literals (claim C10)\<close>

lemma or_32_digit: "48 \<le> n \<Longrightarrow> n \<le> 57 \<Longrightarrow> or n (32::nat) = n"
proof -
  assume "48 \<le> n" "n \<le> 57"
  then have "n = 48 \<or> n = 49 \<or> n = 50 \<or> n = 51 \<or> n = 52 \<or> n = 53 \<or> n = 54 \<or> n = 55
      \<or> n = 56 \<or> n = 57"
    by arith
  then show ?thesis by (elim disjE) simp_all
qed

lemma lower_digit: "isDigit c \<Longrightarrow> lower c = c"
  by (simp add: isDigit_def lower_def Let_def or_32_digit)

lemma digit_value_digit: "isDigit c \<Longrightarrow> digit_value c = Some (of_char c - 48)"
  by (simp add: digit_value_def isDigit_def Let_def)

lemma digit_not_underscore: "isDigit c \<Longrightarrow> c \<noteq> CHR ''_''"
  by (auto simp: isDigit_def Let_def)

lemma ParseUint_loop_octal:
  "list_all isOctalDigit ds \<Longrightarrow>
   ParseUint_loop 8 ds n = Some (foldl (\<lambda>n c. n * 8 + (of_char c - 48)) n ds)"
proof (induction ds arbitrary: n)
  case Nil
  then show ?case by simp
next
  case (Cons c ds)
  then have oc: "isOctalDigit c" and rest: "list_all isOctalDigit ds"
    by simp_all
  from oc have d: "isDigit c" and o: "of_char c \<le> (55::nat)"
    by (simp_all add: isOctalDigit_def isDigit_def Let_def)
  have lt: "(of_char c :: nat) - 48 < 8" using o by simp
  show ?case
    using Cons.IH [OF rest] d lt
    by (simp add: digit_value_digit digit_not_underscore)
qed

lemma ParseUint_loop_not_octal:
  "list_all isDigit ds \<Longrightarrow> \<not> list_all isOctalDigit ds \<Longrightarrow> ParseUint_loop 8 ds n = None"
proof (induction ds arbitrary: n)
  case Nil
  then show ?case by simp
next
  case (Cons c ds)
  then have d: "isDigit c" and rest: "list_all isDigit ds" by simp_all
  show ?case
  proof (cases "isOctalDigit c")
    case True
    then have "\<not> list_all isOctalDigit ds" using Cons.prems(2) by simp
    then have "ParseUint_loop 8 ds m = None" for m using Cons.IH [OF rest] by simp
    then show ?thesis using d by (simp add: digit_value_digit digit_not_underscore)
  next
    case False
    then have "8 \<le> (of_char c :: nat) - 48"
      using d by (simp add: isOctalDigit_def isDigit_def Let_def)
    then show ?thesis using d by (simp add: digit_value_digit digit_not_underscore)
  qed
qed

lemma ParseUint_leading_zero:
  assumes "list_all isDigit ds"
  shows "ParseUint (CHR ''0'' # ds) =
     (if list_all isOctalDigit ds \<and> octal_value ds < 2 ^ 64 then Some (octal_value ds) else None)"
proof -
  have nound: "CHR ''_'' \<notin> set ds"
    using assms digit_not_underscore by (auto simp: list_all_iff)
  have pre: "ds \<noteq> [] \<Longrightarrow> lower (ds ! 0) \<noteq> CHR ''b'' \<and> lower (ds ! 0) \<noteq> CHR ''o'' \<and> lower (ds ! 0) \<noteq> CHR ''x''"
  proof -
    assume "ds \<noteq> []"
    then have "isDigit (ds ! 0)" using assms by (cases ds) simp_all
    then show ?thesis by (auto simp: lower_digit isDigit_def Let_def)
  qed
  have base: "ParseUint (CHR ''0'' # ds) =
      (case ParseUint_loop 8 ds 0 of None \<Rightarrow> None
       | Some n \<Rightarrow> if n \<ge> 2 ^ 64 then None else Some n)"
    using pre nound by (cases ds) (auto simp: ParseUint_def split: option.splits)
  show ?thesis
  proof (cases "list_all isOctalDigit ds")
    case True
    then show ?thesis
      unfolding base by (simp add: ParseUint_loop_octal octal_value_def)
  next
    case False
    then show ?thesis
      unfolding base using assms by (simp add: ParseUint_loop_not_octal)
  qed
qed

lemma ParseInt_leading_zero:
  assumes "list_all isDigit ds"
  shows "ParseInt (CHR ''0'' # ds) =
     (if list_all isOctalDigit ds \<and> octal_value ds < 2 ^ 63 then Some (int (octal_value ds))
      else None)"
proof -
  have "(2::nat) ^ 63 \<le> 2 ^ 64" by simp
  then show ?thesis
    using ParseUint_leading_zero [OF assms] by (auto simp: ParseInt_def)
qed

text \<open>
  Claim C10.  \<^verbatim>\<open>parseIntegerLiteral\<close> converts the digit run of an \<^verbatim>\<open>INT\<close> token with
  \<^verbatim>\<open>strconv.ParseInt(literal, 0, 64)\<close>, which reads the base from the prefix: a digit run
  with a leading \<^verbatim>\<open>0\<close> is read in base 8.  If all digits after the \<^verbatim>\<open>0\<close> are octal digits
  (and the value fits 64 bits) the node is an \<open>IntegerLiteral\<close> with the octal value; if a
  digit 8 or 9 occurs, the error \<^verbatim>\<open>could not parse "..." as integer\<close> is recorded and no
  node is returned.  So \<^verbatim>\<open>$x = 010;\<close> yields the value 8, and \<^verbatim>\<open>$x = 08;\<close> yields the error
  and an assignment without value.
\<close>

theorem parseIntegerLiteral_octal:
  "(\<forall>(p::Parser) ds. Literal (curToken p) = CHR ''0'' # ds \<and> list_all isDigit ds \<longrightarrow>
      parseIntegerLiteral p =
        (if list_all isOctalDigit ds \<and> octal_value ds < 2 ^ 63
         then Some (Some (IntegerLiteral (curToken p) (int (octal_value ds))), p)
         else Some (None, p\<lparr> errors := errors p @
                [''could not parse '' @ [dquote] @ CHR ''0'' # ds @ [dquote] @ '' as integer''] \<rparr>)))
   \<and> parse_source 8 ''$x = 010;'' =
       Some (\<lparr>Statements =
         [ExpressionStatement \<lparr>Type = VARIABLE, Literal = ''$x'', Line = 1, Column = 3\<rparr>
           (Some (AssignmentExpression \<lparr>Type = ASSIGN, Literal = ''='', Line = 1, Column = 4\<rparr>
             (Variable \<lparr>Type = VARIABLE, Literal = ''$x'', Line = 1, Column = 3\<rparr> ''x'')
             (Some (IntegerLiteral \<lparr>Type = INT_T, Literal = ''010'', Line = 1, Column = 9\<rparr> 8))))]\<rparr>,
         [])
   \<and> parse_source 8 ''$x = 08;'' =
       Some (\<lparr>Statements =
         [ExpressionStatement \<lparr>Type = VARIABLE, Literal = ''$x'', Line = 1, Column = 3\<rparr>
           (Some (AssignmentExpression \<lparr>Type = ASSIGN, Literal = ''='', Line = 1, Column = 4\<rparr>
             (Variable \<lparr>Type = VARIABLE, Literal = ''$x'', Line = 1, Column = 3\<rparr> ''x'')
             None))]\<rparr>,
         [''could not parse '' @ [dquote] @ ''08'' @ [dquote] @ '' as integer''])"
proof (intro conjI allI impI)
  fix p :: Parser and ds
  assume "Literal (curToken p) = CHR ''0'' # ds \<and> list_all isDigit ds"
  then show "parseIntegerLiteral p =
        (if list_all isOctalDigit ds \<and> octal_value ds < 2 ^ 63
         then Some (Some (IntegerLiteral (curToken p) (int (octal_value ds))), p)
         else Some (None, p\<lparr> errors := errors p @
                [''could not parse '' @ [dquote] @ CHR ''0'' # ds @ [dquote] @ '' as integer''] \<rparr>))"
    by (simp add: parseIntegerLiteral_def ParseInt_leading_zero go_quote_def)
next
  show "parse_source 8 ''$x = 010;'' =
       Some (\<lparr>Statements =
         [ExpressionStatement \<lparr>Type = VARIABLE, Literal = ''$x'', Line = 1, Column = 3\<rparr>
           (Some (AssignmentExpression \<lparr>Type = ASSIGN, Literal = ''='', Line = 1, Column = 4\<rparr>
             (Variable \<lparr>Type = VARIABLE, Literal = ''$x'', Line = 1, Column = 3\<rparr> ''x'')
             (Some (IntegerLiteral \<lparr>Type = INT_T, Literal = ''010'', Line = 1, Column = 9\<rparr> 8))))]\<rparr>,
         [])"
    by (simp add: lexer_eval parser_eval cong: bind_weak_cong expect_weak_cong)
next
  show "parse_source 8 ''$x = 08;'' =
       Some (\<lparr>Statements =
         [ExpressionStatement \<lparr>Type = VARIABLE, Literal = ''$x'', Line = 1, Column = 3\<rparr>
           (Some (AssignmentExpression \<lparr>Type = ASSIGN, Literal = ''='', Line = 1, Column = 4\<rparr>
             (Variable \<lparr>Type = VARIABLE, Literal = ''$x'', Line = 1, Column = 3\<rparr> ''x'')
             None))]\<rparr>,
         [''could not parse '' @ [dquote] @ ''08'' @ [dquote] @ '' as integer''])"
    by (simp add: lexer_eval parser_eval cong: bind_weak_cong expect_weak_cong)
qed

theorem parseIntegerLiteral_octal_witness:
  "parseIntegerLiteral
     \<lparr>lexer = New [], curToken = \<lparr>Type = INT_T, Literal = ''0755'', Line = 1, Column = 1\<rparr>,
      peekToken = zeroToken, errors = []\<rparr> =
   Some (Some (IntegerLiteral \<lparr>Type = INT_T, Literal = ''0755'', Line = 1, Column = 1\<rparr> 493),
     \<lparr>lexer = New [], curToken = \<lparr>Type = INT_T, Literal = ''0755'', Line = 1, Column = 1\<rparr>,
      peekToken = zeroToken, errors = []\<rparr>)"
  using parseIntegerLiteral_octal
    [THEN conjunct1, rule_format,
     of "\<lparr>lexer = New [], curToken = \<lparr>Type = INT_T, Literal = ''0755'', Line = 1, Column = 1\<rparr>,
         peekToken = zeroToken, errors = []\<rparr>" "''755''"]
  by (simp add: isDigit_def isOctalDigit_def octal_value_def)

section \<open>Longest match of operators (claim C2)\<close>

lemma lexer_inv_readChar: "lexer_inv (readChar l)"
  by (cases "readPosition l < length (input l)")
     (simp_all add: lexer_inv_def readChar_def rest_def firstByte_def Let_def
        Cons_nth_drop_Suc [symmetric])

lemma lexer_inv_New: "lexer_inv (New inp)"
  unfolding New_def by (rule lexer_inv_readChar)



lemma firstByte_drop:
  "firstByte (drop n s) = (if n < length s then s ! n else NUL)"
  by (cases "n < length s") (simp_all add: firstByte_def Cons_nth_drop_Suc [symmetric])





lemma skipWhitespace_id: "\<not> isSpace (ch l) \<Longrightarrow> skipWhitespace l = l"
  by (simp add: skipWhitespace.simps [of l])








section \<open>The position of a token (claim C8)\<close>

text \<open>
  Claim C8 says that every token carries the line and column of its first character.
  A one-byte token and an identifier do (\<^verbatim>\<open>=\<close> and \<^verbatim>\<open>x\<close> at the start of the input have
  column 1).  A token of several bytes is stamped after \<^verbatim>\<open>readChar\<close> has moved on: for
  every lexer standing on \<^verbatim>\<open>==\<close>, with the first \<^verbatim>\<open>=\<close> at the lexer's column, the \<^verbatim>\<open>EQ\<close> token
  has that column plus one (the input \<^verbatim>\<open>==\<close> gives column 2), and the string literal
  \<^verbatim>\<open>"ab"\<close> at the start of the input has column 4, the column of its closing delimiter,
  and a string literal that holds a line break has the line of its closing delimiter.
\<close>

theorem token_position_is_not_first_character:
  "(\<forall>l. ch l = CHR ''='' \<and> peekChar l = CHR ''='' \<longrightarrow>
      map_option fst (NextToken l) =
        Some \<lparr>Type = EQ, Literal = ''=='', Line = line l, Column = column l + 1\<rparr>)
   \<and> map_option fst (NextToken (New ''=='')) =
        Some \<lparr>Type = EQ, Literal = ''=='', Line = 1, Column = 2\<rparr>
   \<and> map_option fst (NextToken (New [CHR 0x22, CHR ''a'', CHR ''b'', CHR 0x22])) =
        Some \<lparr>Type = STRING, Literal = ''ab'', Line = 1, Column = 4\<rparr>
   \<and> map_option fst (NextToken (New [CHR 0x22, CHR ''a'', CHR 0x0A, CHR ''b'', CHR 0x22])) =
        Some \<lparr>Type = STRING, Literal = [CHR ''a'', CHR 0x0A, CHR ''b''], Line = 2, Column = 2\<rparr>
   \<and> map_option fst (NextToken (New ''='')) =
        Some \<lparr>Type = ASSIGN, Literal = ''='', Line = 1, Column = 1\<rparr>
   \<and> map_option fst (NextToken (New ''x'')) =
        Some \<lparr>Type = IDENT, Literal = ''x'', Line = 1, Column = 1\<rparr>"
proof (intro conjI allI impI)
  fix l
  assume "ch l = CHR ''='' \<and> peekChar l = CHR ''=''"
  then show "map_option fst (NextToken l) =
        Some \<lparr>Type = EQ, Literal = ''=='', Line = line l, Column = column l + 1\<rparr>"
    by (auto simp: NextToken.simps [of l] skipWhitespace_id isSpace_def newline_def Let_def
        twoCharToken_def advance_def readChar_def peekChar_def split: if_splits)
qed (simp_all add: lexer_eval)

theorem token_position_is_not_first_character_witness:
  "ch \<lparr>input = ''$a == 1'', position = 3, readPosition = 4, ch = CHR ''='',
        line = 1, column = 4\<rparr> = CHR ''=''
   \<and> peekChar \<lparr>input = ''$a == 1'', position = 3, readPosition = 4, ch = CHR ''='',
        line = 1, column = 4\<rparr> = CHR ''=''
   \<and> map_option fst (NextToken \<lparr>input = ''$a == 1'', position = 3, readPosition = 4,
        ch = CHR ''='', line = 1, column = 4\<rparr>) =
        Some \<lparr>Type = EQ, Literal = ''=='', Line = 1, Column = 5\<rparr>"
  using token_position_is_not_first_character
    [THEN conjunct1, rule_format,
     of "\<lparr>input = ''$a == 1'', position = 3, readPosition = 4, ch = CHR ''='',
          line = 1, column = 4\<rparr>"]
  by (simp add: peekChar_def)

section \<open>Calls after the end of the input (claim C5)\<close>

text \<open>
  Claim C5 as stated fails: the \<^verbatim>\<open>EOF\<close> case of \<^verbatim>\<open>NextToken\<close> ends with \<^verbatim>\<open>readChar\<close> like every
  other case, and \<^verbatim>\<open>readChar\<close> counts a column also past the end.  On the empty input the
  first call returns \<^verbatim>\<open>EOF\<close> at column 1 and the second call \<^verbatim>\<open>EOF\<close> at column 2.  And a
  zero byte inside the input is returned as \<^verbatim>\<open>EOF\<close> too, with the tokens after it still to
  come: on the two bytes 0 and \<^verbatim>\<open>a\<close> the first call returns \<^verbatim>\<open>EOF\<close> and the second the
  identifier \<^verbatim>\<open>a\<close>.
\<close>

theorem second_EOF_has_another_column:
  "NextToken (New []) =
     Some (\<lparr>Type = EOF, Literal = [], Line = 1, Column = 1\<rparr>,
           \<lparr>input = [], position = 1, readPosition = 2, ch = NUL, line = 1, column = 2\<rparr>)
   \<and> NextToken \<lparr>input = [], position = 1, readPosition = 2, ch = NUL, line = 1, column = 2\<rparr> =
     Some (\<lparr>Type = EOF, Literal = [], Line = 1, Column = 2\<rparr>,
           \<lparr>input = [], position = 2, readPosition = 3, ch = NUL, line = 1, column = 3\<rparr>)
   \<and> NextToken (New [CHR 0x00, CHR ''a'']) =
     Some (\<lparr>Type = EOF, Literal = [], Line = 1, Column = 1\<rparr>,
           \<lparr>input = [CHR 0x00, CHR ''a''], position = 1, readPosition = 2, ch = CHR ''a'',
              line = 1, column = 2\<rparr>)
   \<and> NextToken \<lparr>input = [CHR 0x00, CHR ''a''], position = 1, readPosition = 2, ch = CHR ''a'',
              line = 1, column = 2\<rparr> =
     Some (\<lparr>Type = IDENT, Literal = ''a'', Line = 1, Column = 2\<rparr>,
           \<lparr>input = [CHR 0x00, CHR ''a''], position = 2, readPosition = 3, ch = NUL,
              line = 1, column = 3\<rparr>)"
  by (simp add: lexer_eval)

lemma NextToken_atEnd:
  assumes "atEnd l"
  shows "NextToken l =
     Some (\<lparr>Type = EOF, Literal = [], Line = line l, Column = column l\<rparr>,
           l\<lparr>position := readPosition l, readPosition := readPosition l + 1,
              column := column l + 1\<rparr>)"
  using assms
  by (simp add: atEnd_def NextToken.simps [of l] skipWhitespace_id isSpace_def newline_def
      Let_def advance_def readChar_def NUL_def dquote_def squote_def backslash_def
      isLetter_def isDigit_def)

lemma NextToken_after_atEnd:
  "atEnd l \<Longrightarrow>
   NextToken_after k l =
     Some (\<lparr>Type = EOF, Literal = [], Line = line l, Column = column l + k\<rparr>,
           l\<lparr>position := readPosition l + k, readPosition := readPosition l + k + 1,
              column := column l + k + 1\<rparr>)"
proof (induction k arbitrary: l)
  case 0
  then show ?case by (simp add: NextToken_atEnd)
next
  case (Suc k)
  let ?l' = "l\<lparr>position := readPosition l, readPosition := readPosition l + 1,
              column := column l + 1\<rparr>"
  have "atEnd ?l'" using Suc.prems by (simp add: atEnd_def)
  from Suc.IH [OF this] show ?case
    using Suc.prems by (simp add: NextToken_atEnd)
qed

text \<open>
  The functions of the lexer keep the input and the shape of the state, and a token
  of type \<^verbatim>\<open>EOF\<close> comes from the case of the byte 0 only.
\<close>

lemma input_readChar: "input (readChar l) = input l"
  by (simp add: readChar_def Let_def)

lemma skipWhitespace_inv: "lexer_inv l \<Longrightarrow> lexer_inv (skipWhitespace l)"
  by (induction l rule: skipWhitespace.induct)
     (simp add: skipWhitespace.simps lexer_inv_readChar)

lemma input_skipWhitespace: "input (skipWhitespace l) = input l"
  by (induction l rule: skipWhitespace.induct)
     (simp add: skipWhitespace.simps input_readChar)

lemma skipLine_inv: "lexer_inv l \<Longrightarrow> lexer_inv (skipLine l)"
  by (induction l rule: skipLine.induct)
     (simp add: skipLine.simps lexer_inv_readChar)

lemma input_skipLine: "input (skipLine l) = input l"
  by (induction l rule: skipLine.induct)
     (simp add: skipLine.simps input_readChar)

lemma skipBlock_inv: "lexer_inv l \<Longrightarrow> lexer_inv (skipBlock l)"
  by (induction l rule: skipBlock.induct)
     (simp add: skipBlock.simps lexer_inv_readChar)

lemma input_skipBlock: "input (skipBlock l) = input l"
  by (induction l rule: skipBlock.induct)
     (simp add: skipBlock.simps input_readChar)

lemma skipComment_inv: "lexer_inv l \<Longrightarrow> lexer_inv (skipComment l)"
  by (simp add: skipComment_def skipLine_inv skipBlock_inv lexer_inv_readChar)

lemma input_skipComment: "input (skipComment l) = input l"
  by (simp add: skipComment_def input_skipLine input_skipBlock input_readChar)

lemma LookupIdent_not_EOF: "LookupIdent s \<noteq> EOF"
proof -
  have "t \<noteq> EOF" if "keywords_table s = Some t" for t
    using map_of_SomeD [OF that [unfolded keywords_table_def]]
    by (auto simp: TokenType_defs)
  then show ?thesis
    by (auto simp: LookupIdent_def EOF_def IDENT_def split: option.splits)
qed

lemma atEnd_after_NUL:
  assumes "lexer_inv l" and "NUL \<notin> set (input l)" and "ch l = NUL"
  shows "atEnd (readChar l)" and "line (readChar l) = line l"
    and "column (readChar l) = column l + 1"
proof -
  have "length (input l) \<le> position l"
  proof (rule ccontr)
    assume "\<not> length (input l) \<le> position l"
    then have "position l < length (input l)" by simp
    then have "ch l = input l ! position l" "input l ! position l \<in> set (input l)"
      using assms(1) by (simp_all add: lexer_inv_def rest_def firstByte_drop)
    then show False using assms(2,3) by simp
  qed
  then have r: "length (input l) \<le> readPosition l"
    using assms(1) by (simp add: lexer_inv_def)
  show "atEnd (readChar l)" "line (readChar l) = line l" "column (readChar l) = column l + 1"
    using r by (simp_all add: atEnd_def readChar_def NUL_def newline_def)
qed


lemma NextToken_EOF:
  "lexer_inv l0 \<Longrightarrow> NUL \<notin> set (input l0) \<Longrightarrow> NextToken l0 = Some (tok, l) \<Longrightarrow> Type tok = EOF
   \<Longrightarrow> atEnd l \<and> Literal tok = [] \<and> Line tok = line l \<and> column l = Column tok + 1"
proof (induction l0 rule: NextToken.induct)
  case (1 l0)
  define l1 where "l1 = skipWhitespace l0"
  have inv1: "lexer_inv l1" and inp1: "NUL \<notin> set (input l1)"
    using 1(2,3) by (simp_all add: l1_def skipWhitespace_inv input_skipWhitespace)
  show ?case
  proof (cases "ch l1 = CHR ''/'' \<and> peekChar l1 = CHR ''/''")
    case True
    then have "NextToken l0 = NextToken (skipComment l1)"
      by (simp add: NextToken.simps [of l0] l1_def [symmetric])
    moreover have "lexer_inv (skipComment l1)" "NUL \<notin> set (input (skipComment l1))"
      using inv1 inp1 by (simp_all add: skipComment_inv input_skipComment)
    ultimately show ?thesis
      using 1(1) [of l1 "ch l1"] True 1(4,5) by (simp add: l1_def)
  next
    case False
    show ?thesis
    proof (cases "ch l1 = NUL")
      case True
      then have "NextToken l0 =
          Some (\<lparr>Type = EOF, Literal = [], Line = line l1, Column = column l1\<rparr>, readChar l1)"
        by (simp add: NextToken.simps [of l0] l1_def [symmetric] NUL_def advance_def
            dquote_def squote_def backslash_def)
      then show ?thesis
        using 1(4) atEnd_after_NUL [OF inv1 inp1 True] by auto
    next
      case nn: False
      have "Type tok \<noteq> EOF"
        using 1(4) False nn
        by (auto simp: NextToken.simps [of l0] l1_def [symmetric] Let_def advance_def
            twoCharToken_def newToken_def TokenType_defs readNumber_def
            LookupIdent_not_EOF [unfolded EOF_def]
            split: if_splits option.splits prod.splits)
      then show ?thesis using 1(5) by simp
    qed
  qed
qed

text \<open>
  Claim C5, amended.  For an input without zero bytes, once \<^verbatim>\<open>NextToken\<close> has returned an
  \<^verbatim>\<open>EOF\<close> token, every later call returns an \<^verbatim>\<open>EOF\<close> token again, with the same empty literal
  and the same line, but with a column that is one greater at every call: the call that
  follows \<open>k\<close> other calls after the first \<^verbatim>\<open>EOF\<close> has the column of the first \<^verbatim>\<open>EOF\<close> plus
  \<open>k + 1\<close>.
\<close>

theorem EOF_repeats_with_growing_column:
  assumes "lexer_inv l0" and "NUL \<notin> set (input l0)"
    and "NextToken l0 = Some (tok, l)" and "Type tok = EOF"
  shows "NextToken_after k l =
     Some (tok\<lparr>Column := Column tok + k + 1\<rparr>,
           l\<lparr>position := readPosition l + k, readPosition := readPosition l + k + 1,
              column := column l + k + 1\<rparr>)"
proof -
  have e: "atEnd l \<and> Literal tok = [] \<and> Line tok = line l \<and> column l = Column tok + 1"
    using assms by (rule NextToken_EOF)
  then have "tok\<lparr>Column := Column tok + k + 1\<rparr>
      = \<lparr>Type = EOF, Literal = [], Line = line l, Column = column l + k\<rparr>"
    using assms(4) by (cases tok) simp
  then show ?thesis
    using e by (simp add: NextToken_after_atEnd)
qed

theorem EOF_repeats_with_growing_column_witness:
  "lexer_inv \<lparr>input = ''$a'', position = 2, readPosition = 3, ch = NUL, line = 1, column = 3\<rparr>
   \<and> NUL \<notin> set ''$a''
   \<and> NextToken \<lparr>input = ''$a'', position = 2, readPosition = 3, ch = NUL, line = 1, column = 3\<rparr>
       = Some (\<lparr>Type = EOF, Literal = [], Line = 1, Column = 3\<rparr>,
               \<lparr>input = ''$a'', position = 3, readPosition = 4, ch = NUL, line = 1,
                  column = 4\<rparr>)
   \<and> NextToken_after 2
       \<lparr>input = ''$a'', position = 3, readPosition = 4, ch = NUL, line = 1, column = 4\<rparr> =
       Some (\<lparr>Type = EOF, Literal = [], Line = 1, Column = 6\<rparr>,
             \<lparr>input = ''$a'', position = 6, readPosition = 7, ch = NUL, line = 1, column = 7\<rparr>)"
  using EOF_repeats_with_growing_column
    [of "\<lparr>input = ''$a'', position = 2, readPosition = 3, ch = NUL, line = 1, column = 3\<rparr>"
        "\<lparr>Type = EOF, Literal = [], Line = 1, Column = 3\<rparr>"
        "\<lparr>input = ''$a'', position = 3, readPosition = 4, ch = NUL, line = 1, column = 4\<rparr>" 2]
  by (simp add: lexer_eval lexer_inv_def rest_def firstByte_def)

section \<open>Operator precedence (claim C1)\<close>




section \<open>The operator loop and the semicolon (claim C9)\<close>




section \<open>Assignment as an infix operator (claim C4)\<close>

text \<open>
  \<^verbatim>\<open>ASSIGN\<close> has an infix function but no entry in \<^verbatim>\<open>precedences\<close>, so its precedence is
  \<^verbatim>\<open>LOWEST\<close> and the operator loop, which runs at \<^verbatim>\<open>LOWEST\<close> or above, never takes it.
\<close>

lemma parseExpression_loop_assign:
  "peekTokenIs ASSIGN p \<Longrightarrow> LOWEST \<le> precedence \<Longrightarrow>
   parseExpression_loop (Suc n) pe precedence leftExp p = Some (leftExp, p)"
  by (simp add: peekTokenIs_def peekPrecedence_def precedences_def TokenType_defs
      precedence_defs)

text \<open>
  Claim C4 says that a statement such as \<^verbatim>\<open>5 = $x\<close> records the error
  \<^verbatim>\<open>left side of assignment must be a variable\<close> and discards the expression.  The parser
  on \<^verbatim>\<open>5 = $x\<close>: the expression \<^verbatim>\<open>5\<close> is kept as a statement of its own, the \<^verbatim>\<open>=\<close> starts a
  second statement and records \<^verbatim>\<open>no prefix parse function for ASSIGN found\<close>, and \<^verbatim>\<open>$x\<close> is
  a third statement.  No assignment expression is built.
\<close>

theorem assignment_to_literal_5_eq_x:
  "parse_source 8 ''5 = $x'' =
     Some (\<lparr>Statements =
        [ExpressionStatement \<lparr>Type = INT_T, Literal = ''5'', Line = 1, Column = 2\<rparr>
           (Some (IntegerLiteral \<lparr>Type = INT_T, Literal = ''5'', Line = 1, Column = 2\<rparr> 5)),
         ExpressionStatement \<lparr>Type = ASSIGN, Literal = ''='', Line = 1, Column = 3\<rparr> None,
         ExpressionStatement \<lparr>Type = VARIABLE, Literal = ''$x'', Line = 1, Column = 7\<rparr>
           (Some (VariableExpr
              (Variable \<lparr>Type = VARIABLE, Literal = ''$x'', Line = 1, Column = 7\<rparr> ''x'')))]\<rparr>,
      [''no prefix parse function for ASSIGN found''])"
  by (simp add: lexer_eval parser_eval cong: bind_weak_cong expect_weak_cong)

section \<open>The level of break and continue (claim C7)\<close>

lemma parseExpression_integer_alone:
  assumes "Type (curToken p) = INT_T" and "ParseInt (Literal (curToken p)) = Some v"
    and "peekTokenIs SEMICOLON p \<or> peekPrecedence p \<le> LOWEST"
  shows "parseExpression (Suc (Suc n)) LOWEST p = Some (Some (IntegerLiteral (curToken p) v), p)"
  using assms
  by (auto simp: parseExpression_body_def prefixParseFns_def parseIntegerLiteral_def
      TokenType_defs)

text \<open>
  Claim C7 as stated fails: after \<^verbatim>\<open>break\<close> the level is parsed by
  \<^verbatim>\<open>parseExpression(LOWEST)\<close>, so \<^verbatim>\<open>break 2 + 3;\<close> stores the infix expression \<open>2 + 3\<close>, not
  the integer literal alone.
\<close>

theorem break_level_is_an_expression:
  "parse_source 8 ''break 2 + 3;'' =
     Some (\<lparr>Statements =
        [BreakStatement \<lparr>Type = BREAK, Literal = ''break'', Line = 1, Column = 1\<rparr>
           (Some (InfixExpression \<lparr>Type = PLUS, Literal = ''+'', Line = 1, Column = 9\<rparr>
              (Some (IntegerLiteral \<lparr>Type = INT_T, Literal = ''2'', Line = 1, Column = 8\<rparr> 2))
              ''+''
              (Some (IntegerLiteral \<lparr>Type = INT_T, Literal = ''3'', Line = 1, Column = 12\<rparr> 3))))]\<rparr>,
      [])"
  by (simp add: lexer_eval parser_eval cong: bind_weak_cong expect_weak_cong)

text \<open>
  Claim C7, amended.  A \<^verbatim>\<open>break\<close> or \<^verbatim>\<open>continue\<close> statement takes a level only when the
  token directly after the keyword is an \<^verbatim>\<open>INT\<close> token: otherwise the level is absent and
  nothing but a directly following \<^verbatim>\<open>;\<close> is consumed.  With an \<^verbatim>\<open>INT\<close> token after the
  keyword the level is the expression that \<^verbatim>\<open>parseExpression(LOWEST)\<close> parses from that
  token on: the integer literal alone when the token after it is a \<^verbatim>\<open>;\<close> or has no
  precedence above \<^verbatim>\<open>LOWEST\<close> (a larger expression otherwise, as in \<^verbatim>\<open>break 2 + 3;\<close>).
\<close>

theorem break_continue_level:
  "(\<not> peekTokenIs INT_T p \<longrightarrow>
      parseBreakStatement pe p =
        map_option (\<lambda>p'. (BreakStatement (curToken p) None, p')) (skipPeek SEMICOLON p) \<and>
      parseContinueStatement pe p =
        map_option (\<lambda>p'. (ContinueStatement (curToken p) None, p')) (skipPeek SEMICOLON p))
   \<and> (peekTokenIs INT_T p \<and> nextToken p = Some p1 \<and> ParseInt (Literal (curToken p1)) = Some v
        \<and> (peekTokenIs SEMICOLON p1 \<or> peekPrecedence p1 \<le> LOWEST) \<longrightarrow>
      parseBreakStatement (parseExpression (Suc (Suc n))) p =
        map_option (\<lambda>p'. (BreakStatement (curToken p) (Some (IntegerLiteral (curToken p1) v)), p'))
          (skipPeek SEMICOLON p1) \<and>
      parseContinueStatement (parseExpression (Suc (Suc n))) p =
        map_option
          (\<lambda>p'. (ContinueStatement (curToken p) (Some (IntegerLiteral (curToken p1) v)), p'))
          (skipPeek SEMICOLON p1))"
proof (intro conjI impI)
  assume "\<not> peekTokenIs INT_T p"
  then show "parseBreakStatement pe p =
        map_option (\<lambda>p'. (BreakStatement (curToken p) None, p')) (skipPeek SEMICOLON p)"
    and "parseContinueStatement pe p =
        map_option (\<lambda>p'. (ContinueStatement (curToken p) None, p')) (skipPeek SEMICOLON p)"
    by (cases "skipPeek SEMICOLON p";
        simp add: parseBreakStatement_def parseContinueStatement_def)+
next
  assume a: "peekTokenIs INT_T p \<and> nextToken p = Some p1
        \<and> ParseInt (Literal (curToken p1)) = Some v
        \<and> (peekTokenIs SEMICOLON p1 \<or> peekPrecedence p1 \<le> LOWEST)"
  then have t: "Type (curToken p1) = INT_T"
    by (auto simp: nextToken_def peekTokenIs_def split: option.splits)
  have e: "parseExpression (Suc (Suc n)) LOWEST p1
      = Some (Some (IntegerLiteral (curToken p1) v), p1)"
    using a t by (intro parseExpression_integer_alone) auto
  show "parseBreakStatement (parseExpression (Suc (Suc n))) p =
        map_option (\<lambda>p'. (BreakStatement (curToken p) (Some (IntegerLiteral (curToken p1) v)), p'))
          (skipPeek SEMICOLON p1)"
    and "parseContinueStatement (parseExpression (Suc (Suc n))) p =
        map_option
          (\<lambda>p'. (ContinueStatement (curToken p) (Some (IntegerLiteral (curToken p1) v)), p'))
          (skipPeek SEMICOLON p1)"
    using a e
    by (cases "skipPeek SEMICOLON p1";
        simp add: parseBreakStatement_def parseContinueStatement_def)+
qed

theorem break_continue_level_witness:
  "\<not> peekTokenIs INT_T (the (NewParser (New ''break;'')))
   \<and> parseBreakStatement (parseExpression (Suc (Suc 0))) (the (NewParser (New ''break;''))) =
       Some (BreakStatement \<lparr>Type = BREAK, Literal = ''break'', Line = 1, Column = 1\<rparr> None,
         \<lparr>lexer = \<lparr>input = ''break;'', position = 7, readPosition = 8, ch = NUL,
                    line = 1, column = 8\<rparr>,
          curToken = \<lparr>Type = SEMICOLON, Literal = '';'', Line = 1, Column = 6\<rparr>,
          peekToken = \<lparr>Type = EOF, Literal = [], Line = 1, Column = 7\<rparr>,
          errors = []\<rparr>)
   \<and> peekTokenIs INT_T (the (NewParser (New ''break 2;'')))
   \<and> parseBreakStatement (parseExpression (Suc (Suc 0))) (the (NewParser (New ''break 2;''))) =
       Some (BreakStatement \<lparr>Type = BREAK, Literal = ''break'', Line = 1, Column = 1\<rparr>
               (Some (IntegerLiteral \<lparr>Type = INT_T, Literal = ''2'', Line = 1, Column = 8\<rparr> 2)),
         \<lparr>lexer = \<lparr>input = ''break 2;'', position = 9, readPosition = 10, ch = NUL,
                    line = 1, column = 10\<rparr>,
          curToken = \<lparr>Type = SEMICOLON, Literal = '';'', Line = 1, Column = 8\<rparr>,
          peekToken = \<lparr>Type = EOF, Literal = [], Line = 1, Column = 9\<rparr>,
          errors = []\<rparr>)"
  using break_continue_level
      [of "the (NewParser (New ''break;''))" "parseExpression (Suc (Suc 0))"]
    break_continue_level
      [of "the (NewParser (New ''break 2;''))" "parseExpression (Suc (Suc 0))"
          "the (nextToken (the (NewParser (New ''break 2;''))))" 2 0]
  by (simp add: lexer_eval parser_eval cong: bind_weak_cong expect_weak_cong)

section \<open>An unsupported token (claim C3)\<close>

text \<open>
  Claim C3 as stated fails.  The input \<^verbatim>\<open>f(&$x);\<close> holds exactly one unsupported token, the
  lone \<^verbatim>\<open>&\<close> that the lexer returns as \<^verbatim>\<open>ILLEGAL\<close>, and the parser records three errors: the
  missing prefix function, the closing parenthesis that the argument list then expects,
  and the parenthesis left over as a statement.
\<close>

theorem one_illegal_token_three_errors:
  "map_option (map Type) (collectTokens 10 (New ''f(&$x);'') []) =
     Some [IDENT, LPAREN, ILLEGAL, VARIABLE, RPAREN, SEMICOLON, EOF]
   \<and> map_option snd (parse_source 10 ''f(&$x);'') =
     Some [''no prefix parse function for ILLEGAL found'',
           ''expected next token to be RPAREN, got VARIABLE instead'',
           ''no prefix parse function for RPAREN found'']"
  by (simp add: lexer_eval parser_eval cong: bind_weak_cong expect_weak_cong)

lemma illegal_statement:
  assumes "Type (curToken p) = ILLEGAL"
  shows "ParseProgram_loop (n + 3) stmts p =
     Option.bind (skipPeek SEMICOLON
         (p\<lparr>errors := errors p @ [''no prefix parse function for ILLEGAL found'']\<rparr>))
       (\<lambda>p1. Option.bind (nextToken p1)
          (\<lambda>p2. ParseProgram_loop (n + 2) (stmts @ [ExpressionStatement (curToken p) None]) p2))"
proof -
  have n3: "n + 3 = Suc (Suc (Suc n))" and n2: "n + 2 = Suc (Suc n)" by simp_all
  show ?thesis
    unfolding n3 n2 using assms
    by (simp add: curTokenIs_def parseStatement_body_def parseExpressionStatement_def
        parseExpression_body_def prefixParseFns_def noPrefixParseFnError_def
        TokenType_String_def TokenType_names_def TokenType_defs
        del: ParseProgram_loop.simps(2)
        add: ParseProgram_loop.simps(2) [of "Suc (Suc n)"])
qed

lemma skipPeek_errors: "skipPeek t p = Some p' \<Longrightarrow> errors p' = errors p"
  by (auto simp: skipPeek_def nextToken_def split: if_splits option.splits)

lemma nextToken_errors: "nextToken p = Some p' \<Longrightarrow> errors p' = errors p"
  by (auto simp: nextToken_def split: option.splits)

text \<open>
  Claim C3, amended.  When the unsupported token stands where a statement starts (the
  top-level loop of \<^verbatim>\<open>ParseProgram\<close> meets it as its current token), the loop keeps every
  statement parsed before it, appends an \<open>ExpressionStatement\<close> without expression for
  the bad token, records exactly one error, \<^verbatim>\<open>no prefix parse function for ILLEGAL found\<close>,
  and goes on with the token after the bad one (after a \<^verbatim>\<open>;\<close> that directly follows it).
  Where the bad token is met inside a construct that expects another token, further
  errors are recorded.
\<close>

theorem illegal_token_at_statement_start:
  "Type (curToken p) = ILLEGAL \<Longrightarrow>
   ParseProgram_loop (n + 3) stmts p =
     Option.bind (skipPeek SEMICOLON
         (p\<lparr>errors := errors p @ [''no prefix parse function for ILLEGAL found'']\<rparr>))
       (\<lambda>p1. Option.bind (nextToken p1)
          (\<lambda>p2. ParseProgram_loop (n + 2) (stmts @ [ExpressionStatement (curToken p) None]) p2))
   \<and> (\<forall>p1 p2.
        skipPeek SEMICOLON
          (p\<lparr>errors := errors p @ [''no prefix parse function for ILLEGAL found'']\<rparr>) = Some p1
        \<and> nextToken p1 = Some p2
        \<longrightarrow> errors p2 = errors p @ [''no prefix parse function for ILLEGAL found''])"
proof (intro conjI allI impI)
  assume "Type (curToken p) = ILLEGAL"
  then show "ParseProgram_loop (n + 3) stmts p =
     Option.bind (skipPeek SEMICOLON
         (p\<lparr>errors := errors p @ [''no prefix parse function for ILLEGAL found'']\<rparr>))
       (\<lambda>p1. Option.bind (nextToken p1)
          (\<lambda>p2. ParseProgram_loop (n + 2) (stmts @ [ExpressionStatement (curToken p) None]) p2))"
    by (rule illegal_statement)
next
  fix p1 p2
  assume "skipPeek SEMICOLON
          (p\<lparr>errors := errors p @ [''no prefix parse function for ILLEGAL found'']\<rparr>) = Some p1
        \<and> nextToken p1 = Some p2"
  then show "errors p2 = errors p @ [''no prefix parse function for ILLEGAL found'']"
    using skipPeek_errors nextToken_errors by fastforce
qed

theorem illegal_token_at_statement_start_witness:
  "Type (curToken (the (NewParser (New ''& $b = 2;'')))) = ILLEGAL
   \<and> ParseProgram_loop (5 + 3)
       [BreakStatement \<lparr>Type = BREAK, Literal = ''break'', Line = 1, Column = 1\<rparr> None]
       (the (NewParser (New ''& $b = 2;''))) =
     Some ([BreakStatement \<lparr>Type = BREAK, Literal = ''break'', Line = 1, Column = 1\<rparr> None,
            ExpressionStatement \<lparr>Type = ILLEGAL, Literal = ''&'', Line = 1, Column = 1\<rparr> None,
            ExpressionStatement \<lparr>Type = VARIABLE, Literal = ''$b'', Line = 1, Column = 5\<rparr>
              (Some (AssignmentExpression
                 \<lparr>Type = ASSIGN, Literal = ''='', Line = 1, Column = 6\<rparr>
                 (Variable \<lparr>Type = VARIABLE, Literal = ''$b'', Line = 1, Column = 5\<rparr> ''b'')
                 (Some (IntegerLiteral
                    \<lparr>Type = INT_T, Literal = ''2'', Line = 1, Column = 9\<rparr> 2))))],
           \<lparr>lexer = \<lparr>input = ''& $b = 2;'', position = 11, readPosition = 12, ch = NUL,
                      line = 1, column = 12\<rparr>,
            curToken = \<lparr>Type = EOF, Literal = [], Line = 1, Column = 10\<rparr>,
            peekToken = \<lparr>Type = EOF, Literal = [], Line = 1, Column = 11\<rparr>,
            errors = [''no prefix parse function for ILLEGAL found'']\<rparr>)"
  using illegal_token_at_statement_start
      [of "the (NewParser (New ''& $b = 2;''))" 5
          "[BreakStatement \<lparr>Type = BREAK, Literal = ''break'', Line = 1, Column = 1\<rparr> None]"]
  by (simp add: lexer_eval parser_eval cong: bind_weak_cong expect_weak_cong)

section \<open>Resolution of imported names (claim C6)\<close>

lemmas semantic_eval =
  NewSymbolTable_def currentScope_def updateCurrentScope_def EnterScope_def ExitScope_def
  SetNamespace_def AddImport_def makeFullyQualified_def DeclareSymbol_def lookupTyped_def
  parentOf_def lookupScopes.simps ResolveSymbol_def AddReference_def AddClassHierarchy_def
  GetUnresolvedReferences_def NewSemanticAnalyzer_def visitNilable_def onSymbolTable_def
  declareStep_def referenceStep_def declareParameters_def addIdentifierReference_def
  visitNilPointer_def visitProgram_def AnalyzeProgram_def ValidateReferences_def
  HasPrefix_def backslash_def
  squote_def Let_def

lemma scenario_D_parse:
  "parse_source 30 scenario_D =
     Some (\<lparr>Statements =
        [NamespaceDeclaration
           \<lparr>Type = NAMESPACE, Literal = ''namespace'', Line = 1, Column = 7\<rparr>
           (Identifier \<lparr>Type = IDENT, Literal = ''Payroll'', Line = 1, Column = 17\<rparr>
              ''Payroll''),
         UseStatement \<lparr>Type = USE, Literal = ''use'', Line = 1, Column = 26\<rparr>
           (Identifier \<lparr>Type = IDENT, Literal = ''HR'', Line = 1, Column = 30\<rparr> ''HR'') None,
         ExpressionStatement
           \<lparr>Type = NAMESPACE_SEPARATOR, Literal = [CHR 0x5C], Line = 1, Column = 32\<rparr> None,
         ExpressionStatement \<lparr>Type = IDENT, Literal = ''User'', Line = 1, Column = 33\<rparr>
           (Some (IdentifierExpr
              (Identifier \<lparr>Type = IDENT, Literal = ''User'', Line = 1, Column = 33\<rparr>
                 ''User''))),
         ClassDeclaration \<lparr>Type = CLASS, Literal = ''class'', Line = 1, Column = 39\<rparr>
           (Identifier \<lparr>Type = IDENT, Literal = ''Payroll'', Line = 1, Column = 45\<rparr>
              ''Payroll'')
           None [] [] [] [] [],
         ExpressionStatement \<lparr>Type = NEW, Literal = ''new'', Line = 1, Column = 56\<rparr>
           (Some (NewExpression \<lparr>Type = NEW, Literal = ''new'', Line = 1, Column = 56\<rparr>
              (Identifier \<lparr>Type = IDENT, Literal = ''User'', Line = 1, Column = 60\<rparr>
                 ''User'')
              []))]\<rparr>,
      [''no prefix parse function for NAMESPACE_SEPARATOR found''])"
  by (simp add: scenario_D_def backslash_def lexer_eval parser_eval
      cong: bind_weak_cong expect_weak_cong)

text \<open>
  Claim C6 as stated fails.  On the input of scenario D the parser takes \<^verbatim>\<open>HR\<close> alone as the
  imported name and records an error at the \<^verbatim>\<open>\\<close>, so \<^verbatim>\<open>ParseWithSemantics\<close> returns that
  error and no analysis.  The analysis of the program that the parser returned records
  the import \<^verbatim>\<open>HR\<close> for the alias \<^verbatim>\<open>HR\<close> and none for \<^verbatim>\<open>User\<close>, and every reference to \<^verbatim>\<open>User\<close>,
  the one of \<^verbatim>\<open>new User()\<close> included, is unresolved.
\<close>

theorem scenario_D_User_is_unresolved:
  "map_option snd (parse_source 30 scenario_D) =
     Some [''no prefix parse function for NAMESPACE_SEPARATOR found'']
   \<and> ParseWithSemantics 30 scenario_D ''payroll.php'' =
     Some (Inl ''parsing errors: no prefix parse function for NAMESPACE_SEPARATOR found'')
   \<and> map_option (\<lambda>sa. References (SymbolTable sa))
       (analyze_source 30 scenario_D ''payroll.php'') =
     Some [\<lparr>Reference_Name = ''User'', ResolvedSymbol = None, Reference_Line = 1,
              Reference_Column = 0\<rparr>,
           \<lparr>Reference_Name = ''User'', ResolvedSymbol = None, Reference_Line = 1,
              Reference_Column = 0\<rparr>,
           \<lparr>Reference_Name = ''User'', ResolvedSymbol = None, Reference_Line = 1,
              Reference_Column = 0\<rparr>]
   \<and> map_option (\<lambda>sa. (Imports (currentScope (SymbolTable sa)) ''User'',
                          Imports (currentScope (SymbolTable sa)) ''HR''))
       (analyze_source 30 scenario_D ''payroll.php'') =
     Some (None, Some ''HR'')"
  by (simp add: scenario_D_parse ParseWithSemantics_def analyze_source_def TokenType_defs
      semantic_eval)

lemma lookupScopes_Imports:
  "lookupScopes (h[c := (h ! c)\<lparr>Imports := imports\<rparr>]) name symbolType scope
     = lookupScopes h name symbolType scope"
proof (induction h name symbolType scope rule: lookupScopes.induct)
  case (1 h name symbolType)
  show ?case by (simp add: lookupScopes.simps)
next
  case (2 h name symbolType a)
  have s: "Symbols (h[c := (h ! c)\<lparr>Imports := imports\<rparr>] ! a) = Symbols (h ! a)"
    by (cases "a = c"; cases "c < length h") (simp_all add: list_update_beyond not_less)
  have p: "parentOf (h[c := (h ! c)\<lparr>Imports := imports\<rparr>]) a = parentOf h a"
    by (cases "a = c"; cases "c < length h")
       (simp_all add: parentOf_def list_update_beyond not_less)
  show ?case
    using 2 by (simp add: lookupScopes.simps s p split: option.splits)
qed

text \<open>
  Claim C6, amended.  For a name that does not start with \<^verbatim>\<open>\\<close> and that the import table of
  the current scope maps to a fully qualified name, \<^verbatim>\<open>ResolveSymbol\<close> returns the symbol
  declared under that fully qualified name with the requested kind, before it looks at
  the scopes, the current namespace or the global namespace; so a same-named symbol of
  the current namespace does not win.  When no symbol of that kind is declared under the
  imported name in the analysed file, the import is ignored: the result is the one of
  the same table without that import.
\<close>

theorem ResolveSymbol_import_first:
  assumes "\<not> HasPrefix name [backslash]"
    and "Imports (currentScope st) name = Some fqn"
  shows "ResolveSymbol name symbolType st =
    (case lookupTyped (AllSymbols st) fqn symbolType of
       Some symbol \<Rightarrow> Some symbol
     | None \<Rightarrow>
         ResolveSymbol name symbolType
           (updateCurrentScope (\<lambda>s. s\<lparr>Imports := (Imports s)(name := None)\<rparr>) st))"
proof (cases "lookupTyped (AllSymbols st) fqn symbolType")
  case (Some symbol)
  then show ?thesis using assms by (simp add: ResolveSymbol_def)
next
  case None
  define U where "U = updateCurrentScope (\<lambda>s. s\<lparr>Imports := (Imports s)(name := None)\<rparr>) st"
  show ?thesis
  proof (cases "CurrentScope st < length (scopes st)")
    case True
    have sc: "scopes U = (scopes st)[CurrentScope st :=
        (scopes st ! CurrentScope st)
          \<lparr>Imports := (Imports (scopes st ! CurrentScope st))(name := None)\<rparr>]"
      by (simp add: U_def updateCurrentScope_def currentScope_def)
    have cu: "CurrentScope U = CurrentScope st" "AllSymbols U = AllSymbols st"
      by (simp_all add: U_def updateCurrentScope_def)
    have ls: "lookupScopes (scopes U) name symbolType (Some (CurrentScope st))
        = lookupScopes (scopes st) name symbolType (Some (CurrentScope st))"
      unfolding sc by (rule lookupScopes_Imports)
    have n: "Namespace (currentScope U) = Namespace (currentScope st)"
      using True by (simp add: U_def currentScope_def updateCurrentScope_def)
    have i: "Imports (currentScope U) name = None"
      using True by (simp add: U_def currentScope_def updateCurrentScope_def)
    have "ResolveSymbol name symbolType st = ResolveSymbol name symbolType U"
      unfolding ResolveSymbol_def cu ls n i using assms None by simp
    then show ?thesis
      using None by (simp add: U_def)
  next
    case False
    then have "U = st"
      by (simp add: U_def updateCurrentScope_def list_update_beyond not_less)
    then show ?thesis
      using None by (simp add: U_def)
  qed
qed

theorem ResolveSymbol_import_first_witness:
  "\<not> HasPrefix ''User'' [backslash]
   \<and> Imports (currentScope two_User_classes) ''User'' = Some (''HR'' @ [backslash] @ ''User'')
   \<and> AllSymbols two_User_classes (''Payroll'' @ [backslash] @ ''User'') =
       Some \<lparr>Symbol_Name = ''User'', FullyQualified = ''Payroll'' @ [backslash] @ ''User'',
              Symbol_Type = CLASS_SYMBOL, Symbol_Namespace = ''Payroll'',
              File = ''payroll.php'', Symbol_Line = 3\<rparr>
   \<and> ResolveSymbol ''User'' CLASS_SYMBOL two_User_classes =
       Some \<lparr>Symbol_Name = ''User'', FullyQualified = ''HR'' @ [backslash] @ ''User'',
              Symbol_Type = CLASS_SYMBOL, Symbol_Namespace = ''HR'',
              File = ''payroll.php'', Symbol_Line = 2\<rparr>"
  using ResolveSymbol_import_first
    [of "''User''" two_User_classes "''HR'' @ [backslash] @ ''User''" CLASS_SYMBOL]
  by (simp add: two_User_classes_def semantic_eval)

end
